theory Spec2Isabelle
  imports Complex_Main "HOL-Library.Word"
begin

unbundle bit_operations_syntax

section \<open>Data model\<close>

text \<open>
  The mesh area-conservation forces of HOOMD-blue: the whole-mesh variant
  (AreaConservationMeshForceCompute.cc), the per-triangle variant
  (TriangleAreaConservationMeshForceCompute.cc) and the accelerator shell
  (AreaConservationMeshForceComputeGPU.cc).

  \<^verbatim>\<open>Scalar\<close> is modelled by \<^typ>\<open>real\<close>: exact arithmetic, no rounding, no infinities
  or NaN. In HOL \<open>x / 0 = 0\<close>, where the C++ yields an infinity or a NaN: the
  definitions agree with the source wherever no divisor is zero, and the theorems on
  whole runs carry the hypotheses that keep the divisors of the source away from zero
  (a non-zero target area, a non-zero triangle count, a triangle that is not
  degenerate). Rounding is not modelled. Unsigned index arithmetic is modelled on
  \<^typ>\<open>nat\<close> (no wrap-around).
  The raw arrays of the source are lists: a write beyond the end, undefined in C++, is
  dropped by the list update.
\<close>

type_synonym Scalar = real

datatype Scalar3 = Scalar3 (vx: Scalar) (vy: Scalar) (vz: Scalar)

text \<open>A slot of the force buffer: the force in x, y, z and the energy in w.\<close>

datatype Scalar4 = Scalar4 (fx: Scalar) (fy: Scalar) (fz: Scalar) (fw: Scalar)

definition vadd :: "Scalar3 \<Rightarrow> Scalar3 \<Rightarrow> Scalar3" where
  "vadd a b = Scalar3 (vx a + vx b) (vy a + vy b) (vz a + vz b)"

definition vneg :: "Scalar3 \<Rightarrow> Scalar3" where
  "vneg a = Scalar3 (- vx a) (- vy a) (- vz a)"

definition smul :: "Scalar \<Rightarrow> Scalar3 \<Rightarrow> Scalar3" where
  "smul k a = Scalar3 (k * vx a) (k * vy a) (k * vz a)"

definition sdiv :: "Scalar3 \<Rightarrow> Scalar \<Rightarrow> Scalar3" where
  "sdiv a k = Scalar3 (vx a / k) (vy a / k) (vz a / k)"

definition zero3 :: Scalar3 where
  "zero3 = Scalar3 0 0 0"

definition zero4 :: Scalar4 where
  "zero4 = Scalar4 0 0 0 0"

datatype error = AssertionFailed | RuntimeError string

text \<open>A mesh triangle: the three particle tags (\<^verbatim>\<open>triangle.tag[0..2]\<close>) and the type
  that \<^verbatim>\<open>getTypeByIndex(i)\<close> returns for it.\<close>

record MeshTriangle =
  tag_a :: nat
  tag_b :: nat
  tag_c :: nat
  type_id :: nat

text \<open>What the computes read from the particle data, the box and the execution
  configuration. \<^verbatim>\<open>BoxDim::minImage\<close> and the collective \<^verbatim>\<open>MPI_Allreduce\<close> are
  defined outside the given sources and are parameters.\<close>

record ParticleData =
  h_pos :: "Scalar4 list"
  h_rtag :: "nat list"
  getN :: nat
  getNGhosts :: nat
  getMaximumTag :: nat
  minImage :: "Scalar3 \<Rightarrow> Scalar3"
  pressure_tensor :: bool
  getDomainDecomposition :: bool
  MPI_Allreduce_SUM :: "Scalar list \<Rightarrow> Scalar list"

text \<open>What the computes read from the mesh definition. \<^verbatim>\<open>getSize()\<close> and
  \<^verbatim>\<open>getPerTypeSize()\<close> are declared outside the given sources and are parameters.\<close>

record MeshDefinition =
  h_triangles :: "MeshTriangle list"
  getNTypes :: nat
  getSize :: nat
  h_pts :: "nat list"

text \<open>The members of a force compute. \<open>warnings\<close> is the text sent to
  \<^verbatim>\<open>m_exec_conf->msg->warning()\<close>.\<close>

record ForceCompute =
  m_K :: "Scalar list"
  m_A0 :: "Scalar list"
  m_area :: "Scalar list"
  m_ignore_type :: bool
  m_force :: "Scalar4 list"
  m_virial :: "Scalar list"
  virial_pitch :: nat
  warnings :: "string list"

section \<open>setParams\<close>

definition warn :: "bool \<Rightarrow> string \<Rightarrow> string list \<Rightarrow> string list" where
  "warn b msg ws = (if b then ws @ [msg] else ws)"

text \<open>\<^verbatim>\<open>AreaConservationMeshForceCompute::setParams\<close>\<close>

definition setParams :: "nat \<Rightarrow> Scalar \<Rightarrow> Scalar \<Rightarrow> ForceCompute \<Rightarrow> ForceCompute" where
  "setParams type K A0 s =
     (if \<not> m_ignore_type s \<or> type = 0 then
        s\<lparr>m_K := (m_K s)[type := K],
          m_A0 := (m_A0 s)[type := A0],
          warnings := warn (A0 \<le> 0) ''area: specified A0 <= 0''
                        (warn (K \<le> 0) ''area: specified K <= 0'' (warnings s))\<rparr>
      else s)"

text \<open>\<^verbatim>\<open>TriangleAreaConservationMeshForceCompute::setParams\<close>\<close>

definition tri_setParams :: "nat \<Rightarrow> Scalar \<Rightarrow> Scalar \<Rightarrow> ForceCompute \<Rightarrow> ForceCompute" where
  "tri_setParams type K A0 s =
     s\<lparr>m_K := (m_K s)[type := K],
       m_A0 := (m_A0 s)[type := A0],
       warnings := warn (A0 \<le> 0) ''TriangleAreaConservation: specified A0 <= 0''
                     (warn (K \<le> 0) ''TriangleAreaConservation: specified K <= 0'' (warnings s))\<rparr>"

section \<open>Geometry of one triangle\<close>

text \<open>The three local indices of a triangle, with the assertions of the loop body:
  every tag is at most the maximum tag and every index is below
  \<^verbatim>\<open>getN() + getNGhosts()\<close>. (The assertions are compiled out of release builds;
  there an ill-formed triangle reads out of range.)\<close>

definition lookup_indices :: "ParticleData \<Rightarrow> MeshTriangle \<Rightarrow> error + (nat \<times> nat \<times> nat)" where
  "lookup_indices pd t =
     (if \<not> (tag_a t < getMaximumTag pd + 1 \<and> tag_b t < getMaximumTag pd + 1
             \<and> tag_c t < getMaximumTag pd + 1)
      then Inl AssertionFailed
      else
        let idx_a = h_rtag pd ! tag_a t;
            idx_b = h_rtag pd ! tag_b t;
            idx_c = h_rtag pd ! tag_c t
        in if idx_a < getN pd + getNGhosts pd \<and> idx_b < getN pd + getNGhosts pd
              \<and> idx_c < getN pd + getNGhosts pd
           then Inr (idx_a, idx_b, idx_c)
           else Inl AssertionFailed)"

definition pos3 :: "ParticleData \<Rightarrow> nat \<Rightarrow> Scalar3" where
  "pos3 pd i = Scalar3 (fx (h_pos pd ! i)) (fy (h_pos pd ! i)) (fz (h_pos pd ! i))"

text \<open>\<^verbatim>\<open>if (c_baac > 1.0) c_baac = 1.0; if (c_baac < -1.0) c_baac = -1.0;\<close>\<close>

definition clamp_cos :: "Scalar \<Rightarrow> Scalar" where
  "clamp_cos c = (let c1 = (if c > 1 then 1 else c) in if c1 < - 1 then - 1 else c1)"

text \<open>The quantities both force loops derive from the edge vectors
  \<open>dab = minImage (r_a - r_b)\<close> and \<open>dac = minImage (r_a - r_c)\<close>. The two source files
  repeat this block word for word.\<close>

record TriGeom =
  dab :: Scalar3
  dac :: Scalar3
  rab :: Scalar
  rac :: Scalar
  nab :: Scalar3
  nac :: Scalar3
  s_baac :: Scalar
  ds_drab :: Scalar3
  ds_drac :: Scalar3

definition edge_terms :: "Scalar3 \<Rightarrow> Scalar3 \<Rightarrow> TriGeom" where
  "edge_terms dab0 dac0 =
     (let rsqab = vx dab0 * vx dab0 + vy dab0 * vy dab0 + vz dab0 * vz dab0;
          rab0 = sqrt rsqab;
          rsqac = vx dac0 * vx dac0 + vy dac0 * vy dac0 + vz dac0 * vz dac0;
          rac0 = sqrt rsqac;
          nab0 = sdiv dab0 rab0;
          nac0 = sdiv dac0 rac0;
          c_baac = clamp_cos (vx nab0 * vx nac0 + vy nab0 * vy nac0 + vz nab0 * vz nac0);
          s = sqrt (1 - c_baac * c_baac);
          inv_s_baac = 1 / s;
          dc_drab = vadd (sdiv (vneg nac0) rab0) (smul (c_baac / rab0) nab0);
          dc_drac = vadd (sdiv (vneg nab0) rac0) (smul (c_baac / rac0) nac0)
      in \<lparr>dab = dab0, dac = dac0, rab = rab0, rac = rac0, nab = nab0, nac = nac0,
          s_baac = s,
          ds_drab = smul (- c_baac * inv_s_baac) dc_drab,
          ds_drac = smul (- c_baac * inv_s_baac) dc_drac\<rparr>)"

definition vsub :: "Scalar3 \<Rightarrow> Scalar3 \<Rightarrow> Scalar3" where
  "vsub a b = Scalar3 (vx a - vx b) (vy a - vy b) (vz a - vz b)"

text \<open>The geometry of the force loops: edges point from b and c to a.\<close>

definition force_geom :: "ParticleData \<Rightarrow> nat \<Rightarrow> nat \<Rightarrow> nat \<Rightarrow> TriGeom" where
  "force_geom pd idx_a idx_b idx_c =
     edge_terms (minImage pd (vsub (pos3 pd idx_a) (pos3 pd idx_b)))
                (minImage pd (vsub (pos3 pd idx_a) (pos3 pd idx_c)))"

text \<open>\<^verbatim>\<open>prefactor * (-nab * rac * s_baac + ds_drab * rab * rac)\<close> and the same for c.\<close>

definition force_ab :: "Scalar \<Rightarrow> TriGeom \<Rightarrow> Scalar3" where
  "force_ab pre g =
     smul pre (vadd (smul (s_baac g) (smul (rac g) (vneg (nab g))))
                    (smul (rac g) (smul (rab g) (ds_drab g))))"

definition force_ac :: "Scalar \<Rightarrow> TriGeom \<Rightarrow> Scalar3" where
  "force_ac pre g =
     smul pre (vadd (smul (s_baac g) (smul (rab g) (vneg (nac g))))
                    (smul (rac g) (smul (rab g) (ds_drac g))))"

section \<open>Writing the buffers\<close>

text \<open>The six virial components that one vertex receives. The scratch array of the
  source is zeroed before the loop and assigned only under \<^verbatim>\<open>compute_virial\<close>, so
  without the flag zeros are added.\<close>

definition virial_pair :: "bool \<Rightarrow> TriGeom \<Rightarrow> Scalar3 \<Rightarrow> Scalar3 \<Rightarrow> Scalar list" where
  "virial_pair compute_virial g Fab Fac =
     (if compute_virial then
        [1 / 2 * (vx (dab g) * vx Fab + vx (dac g) * vx Fac),
         1 / 2 * (vy (dab g) * vx Fab + vy (dac g) * vx Fac),
         1 / 2 * (vz (dab g) * vx Fab + vz (dac g) * vx Fac),
         1 / 2 * (vy (dab g) * vy Fab + vy (dac g) * vy Fac),
         1 / 2 * (vz (dab g) * vy Fab + vz (dac g) * vy Fac),
         1 / 2 * (vz (dab g) * vz Fab + vz (dac g) * vz Fac)]
      else replicate 6 0)"

definition virial_single :: "bool \<Rightarrow> Scalar3 \<Rightarrow> Scalar3 \<Rightarrow> Scalar list" where
  "virial_single compute_virial d F =
     (if compute_virial then
        [1 / 2 * vx d * vx F, 1 / 2 * vy d * vx F, 1 / 2 * vz d * vx F,
         1 / 2 * vy d * vy F, 1 / 2 * vz d * vy F, 1 / 2 * vz d * vz F]
      else replicate 6 0)"

type_synonym buffers = "Scalar4 list \<times> Scalar list"

text \<open>One guarded block \<^verbatim>\<open>if (idx < m_pdata->getN()) { ... }\<close>: the force \<open>F\<close> and the
  energy \<open>e\<close> are added to slot \<open>idx\<close>, the six virial components to the slots
  \<open>j * virial_pitch + idx\<close>.\<close>

definition add_force :: "nat \<Rightarrow> Scalar3 \<Rightarrow> Scalar \<Rightarrow> Scalar4 list \<Rightarrow> Scalar4 list" where
  "add_force idx F e f =
     f[idx := Scalar4 (fx (f ! idx) + vx F) (fy (f ! idx) + vy F) (fz (f ! idx) + vz F)
                      (fw (f ! idx) + e)]"

definition add_virial :: "nat \<Rightarrow> nat \<Rightarrow> Scalar list \<Rightarrow> Scalar list \<Rightarrow> Scalar list" where
  "add_virial pitch idx av v =
     fold (\<lambda>j v. v[j * pitch + idx := v ! (j * pitch + idx) + av ! j]) [0..<6] v"

definition update_vertex ::
  "nat \<Rightarrow> nat \<Rightarrow> nat \<Rightarrow> Scalar3 \<Rightarrow> Scalar \<Rightarrow> Scalar list \<Rightarrow> buffers \<Rightarrow> buffers" where
  "update_vertex n pitch idx F e av b =
     (if idx < n then (add_force idx F e (fst b), add_virial pitch idx av (snd b)) else b)"

text \<open>The three guarded blocks of a loop body, in the order a, b, c: vertex a receives
  \<open>Fab + Fac\<close>, vertex b has \<open>Fab\<close> subtracted, vertex c has \<open>Fac\<close> subtracted, and each
  receives the energy \<open>e\<close>.\<close>

definition apply_triangle ::
  "ParticleData \<Rightarrow> nat \<Rightarrow> nat \<times> nat \<times> nat \<Rightarrow> TriGeom \<Rightarrow> Scalar3 \<Rightarrow> Scalar3 \<Rightarrow> Scalar
     \<Rightarrow> buffers \<Rightarrow> buffers" where
  "apply_triangle pd pitch idx g Fab Fac e b =
     (case idx of (idx_a, idx_b, idx_c) \<Rightarrow>
        update_vertex (getN pd) pitch idx_c (vneg Fac) e
            (virial_single (pressure_tensor pd) (dac g) Fac)
          (update_vertex (getN pd) pitch idx_b (vneg Fab) e
              (virial_single (pressure_tensor pd) (dab g) Fab)
            (update_vertex (getN pd) pitch idx_a (vadd Fab Fac) e
                (virial_pair (pressure_tensor pd) g Fab Fac) b)))"

text \<open>A loop over the triangles that stops at the first failed assertion.\<close>

fun for_each :: "('a \<Rightarrow> 's \<Rightarrow> error + 's) \<Rightarrow> 'a list \<Rightarrow> 's \<Rightarrow> error + 's" where
  "for_each body [] s = Inr s"
| "for_each body (t # ts) s =
     (case body t s of Inl e \<Rightarrow> Inl e | Inr s' \<Rightarrow> for_each body ts s')"

section \<open>The whole-mesh variant\<close>

text \<open>\<^verbatim>\<open>if(m_ignore_type) triangle_type = 0;\<close>\<close>

definition active_type :: "bool \<Rightarrow> MeshTriangle \<Rightarrow> nat" where
  "active_type ignore_type t = (if ignore_type then 0 else type_id t)"

text \<open>The area of a triangle as \<^verbatim>\<open>precomputeParameter\<close> computes it: here the edges
  point from a to b and to c.\<close>

definition tri_area :: "ParticleData \<Rightarrow> nat \<Rightarrow> nat \<Rightarrow> nat \<Rightarrow> Scalar" where
  "tri_area pd idx_a idx_b idx_c =
     (let g = edge_terms (minImage pd (vsub (pos3 pd idx_b) (pos3 pd idx_a)))
                         (minImage pd (vsub (pos3 pd idx_c) (pos3 pd idx_a)))
      in rab g * rac g * s_baac g / 2)"

definition add_at :: "nat \<Rightarrow> Scalar \<Rightarrow> Scalar list \<Rightarrow> Scalar list" where
  "add_at i a xs = xs[i := xs ! i + a]"

definition add_if :: "bool \<Rightarrow> nat \<Rightarrow> Scalar \<Rightarrow> Scalar list \<Rightarrow> Scalar list" where
  "add_if b i a xs = (if b then add_at i a xs else xs)"

text \<open>The body of the loop of \<^verbatim>\<open>precomputeParameter\<close>. Under domain decomposition a
  third of the area is added for every vertex that the rank owns; otherwise the whole
  area is added once.\<close>

definition area_body :: "ParticleData \<Rightarrow> bool \<Rightarrow> MeshTriangle \<Rightarrow> Scalar list \<Rightarrow> error + Scalar list" where
  "area_body pd ignore_type t global_area =
     (case lookup_indices pd t of
        Inl e \<Rightarrow> Inl e
      | Inr (idx_a, idx_b, idx_c) \<Rightarrow>
          let area_tri = tri_area pd idx_a idx_b idx_c;
              triangle_type = active_type ignore_type t
          in if getDomainDecomposition pd then
               let third = area_tri / 3
               in Inr (add_if (idx_c < getN pd) triangle_type third
                        (add_if (idx_b < getN pd) triangle_type third
                          (add_if (idx_a < getN pd) triangle_type third global_area)))
             else Inr (add_at triangle_type area_tri global_area))"

text \<open>The per-type vector of a rank before the reduction.\<close>

definition local_area :: "ParticleData \<Rightarrow> MeshDefinition \<Rightarrow> bool \<Rightarrow> error + Scalar list" where
  "local_area pd mesh ignore_type =
     for_each (area_body pd ignore_type) (h_triangles mesh) (replicate (getNTypes mesh) 0)"

text \<open>\<^verbatim>\<open>for (i = 0; i < n_types; i++) m_area[i] = global_area[i];\<close> Here \<open>n_types\<close> is
  the number of types of the mesh, while the constructor of the whole-mesh variant
  allocates a single slot under \<^verbatim>\<open>ignore_type\<close>: with more than one mesh type the source
  then writes beyond \<^verbatim>\<open>m_area\<close>.\<close>

definition store_area :: "nat \<Rightarrow> Scalar list \<Rightarrow> Scalar list \<Rightarrow> Scalar list" where
  "store_area n_types global_area area = fold (\<lambda>i a. a[i := global_area ! i]) [0..<n_types] area"

definition reduce_area :: "ParticleData \<Rightarrow> Scalar list \<Rightarrow> Scalar list" where
  "reduce_area pd global_area =
     (if getDomainDecomposition pd then MPI_Allreduce_SUM pd global_area else global_area)"

definition precomputeParameter :: "ParticleData \<Rightarrow> MeshDefinition \<Rightarrow> ForceCompute \<Rightarrow> error + ForceCompute" where
  "precomputeParameter pd mesh s =
     (case local_area pd mesh (m_ignore_type s) of
        Inl e \<Rightarrow> Inl e
      | Inr global_area \<Rightarrow>
          Inr (s\<lparr>m_area := store_area (getNTypes mesh) (reduce_area pd global_area) (m_area s)\<rparr>))"

text \<open>\<^verbatim>\<open>triN\<close> is set to \<^verbatim>\<open>m_mesh_data->getSize()\<close> before the loop and, unless types are
  ignored, overwritten in every iteration by \<^verbatim>\<open>h_pts.data[triangle_type]\<close> before it
  is read.\<close>

definition triN :: "MeshDefinition \<Rightarrow> bool \<Rightarrow> nat \<Rightarrow> nat" where
  "triN mesh ignore_type triangle_type =
     (if ignore_type then getSize mesh else h_pts mesh ! triangle_type)"

definition area_energy :: "MeshDefinition \<Rightarrow> ForceCompute \<Rightarrow> nat \<Rightarrow> Scalar" where
  "area_energy mesh s triangle_type =
     (let AreaDiff = m_area s ! triangle_type - m_A0 s ! triangle_type
      in m_K s ! triangle_type * AreaDiff * AreaDiff
           / (6 * m_A0 s ! triangle_type * real (triN mesh (m_ignore_type s) triangle_type)))"

definition area_prefactor :: "ForceCompute \<Rightarrow> nat \<Rightarrow> Scalar" where
  "area_prefactor s triangle_type =
     m_K s ! triangle_type / m_A0 s ! triangle_type
       * (m_area s ! triangle_type - m_A0 s ! triangle_type) / 2"

definition force_body :: "ParticleData \<Rightarrow> MeshDefinition \<Rightarrow> ForceCompute \<Rightarrow> MeshTriangle \<Rightarrow> buffers \<Rightarrow> error + buffers" where
  "force_body pd mesh s t b =
     (case lookup_indices pd t of
        Inl e \<Rightarrow> Inl e
      | Inr (idx_a, idx_b, idx_c) \<Rightarrow>
          let g = force_geom pd idx_a idx_b idx_c;
              triangle_type = active_type (m_ignore_type s) t;
              energy = area_energy mesh s triangle_type;
              Fab = force_ab (area_prefactor s triangle_type) g;
              Fac = force_ac (area_prefactor s triangle_type) g
          in Inr (apply_triangle pd (virial_pitch s) (idx_a, idx_b, idx_c) g Fab Fac energy b))"

text \<open>The two \<^verbatim>\<open>memset\<close> calls.\<close>

definition zero_buffers :: "ForceCompute \<Rightarrow> buffers" where
  "zero_buffers s = (replicate (length (m_force s)) zero4, replicate (length (m_virial s)) 0)"

definition store_buffers :: "ForceCompute \<Rightarrow> buffers \<Rightarrow> ForceCompute" where
  "store_buffers s b = s\<lparr>m_force := fst b, m_virial := snd b\<rparr>"

text \<open>\<^verbatim>\<open>AreaConservationMeshForceCompute::computeForces\<close>\<close>

definition computeForces :: "ParticleData \<Rightarrow> MeshDefinition \<Rightarrow> ForceCompute \<Rightarrow> error + ForceCompute" where
  "computeForces pd mesh s =
     (case precomputeParameter pd mesh s of
        Inl e \<Rightarrow> Inl e
      | Inr s1 \<Rightarrow>
          (case for_each (force_body pd mesh s1) (h_triangles mesh) (zero_buffers s1) of
             Inl e \<Rightarrow> Inl e
           | Inr b \<Rightarrow> Inr (store_buffers s1 b)))"

section \<open>The per-triangle variant\<close>

text \<open>The loop state of the per-triangle variant carries \<^verbatim>\<open>global_area\<close> along with
  the buffers: every guarded block first adds a third of the triangle's area.\<close>

definition tri_Ut :: "ForceCompute \<Rightarrow> nat \<Rightarrow> TriGeom \<Rightarrow> Scalar" where
  "tri_Ut s triangle_type g = 3 * (rab g * rac g * s_baac g / 6) - m_A0 s ! triangle_type"

definition tri_energy :: "ForceCompute \<Rightarrow> nat \<Rightarrow> TriGeom \<Rightarrow> Scalar" where
  "tri_energy s triangle_type g =
     m_K s ! triangle_type / (6 * m_A0 s ! triangle_type)
       * tri_Ut s triangle_type g * tri_Ut s triangle_type g"

definition tri_prefactor :: "ForceCompute \<Rightarrow> nat \<Rightarrow> TriGeom \<Rightarrow> Scalar" where
  "tri_prefactor s triangle_type g =
     m_K s ! triangle_type / (2 * m_A0 s ! triangle_type) * tri_Ut s triangle_type g"

definition tri_force_body :: "ParticleData \<Rightarrow> ForceCompute \<Rightarrow> MeshTriangle \<Rightarrow> Scalar list \<times> buffers \<Rightarrow> error + Scalar list \<times> buffers" where
  "tri_force_body pd s t st =
     (case lookup_indices pd t of
        Inl e \<Rightarrow> Inl e
      | Inr (idx_a, idx_b, idx_c) \<Rightarrow>
          let g = force_geom pd idx_a idx_b idx_c;
              triangle_type = type_id t;
              tri_area3 = rab g * rac g * s_baac g / 6;
              Fab = force_ab (tri_prefactor s triangle_type g) g;
              Fac = force_ac (tri_prefactor s triangle_type g) g
          in Inr (add_if (idx_c < getN pd) triangle_type tri_area3
                   (add_if (idx_b < getN pd) triangle_type tri_area3
                     (add_if (idx_a < getN pd) triangle_type tri_area3 (fst st))),
                  apply_triangle pd (virial_pitch s) (idx_a, idx_b, idx_c) g Fab Fac
                    (tri_energy s triangle_type g) (snd st)))"

text \<open>\<^verbatim>\<open>TriangleAreaConservationMeshForceCompute::computeForces\<close>\<close>

definition tri_computeForces :: "ParticleData \<Rightarrow> MeshDefinition \<Rightarrow> ForceCompute \<Rightarrow> error + ForceCompute" where
  "tri_computeForces pd mesh s =
     (case for_each (tri_force_body pd s) (h_triangles mesh)
             (replicate (getNTypes mesh) 0, zero_buffers s) of
        Inl e \<Rightarrow> Inl e
      | Inr (global_area, b) \<Rightarrow>
          Inr ((store_buffers s b)
                 \<lparr>m_area := store_area (getNTypes mesh) (reduce_area pd global_area) (m_area s)\<rparr>))"

definition getArea :: "ForceCompute \<Rightarrow> nat \<Rightarrow> Scalar" where
  "getArea s i = m_area s ! i"

section \<open>The accelerator shell\<close>

text \<open>What \<^verbatim>\<open>AreaConservationMeshForceComputeGPU::computeForces\<close> holds on the device.
  The kernel \<^verbatim>\<open>gpu_compute_AreaConservation_force\<close> and the macro \<^verbatim>\<open>CHECK_CUDA_ERROR\<close>
  are defined outside the given sources: the kernel is a parameter that maps the
  device state to the device state, the macro's outcome is a parameter that is
  \<open>None\<close> when it passes and \<open>Some e\<close> when it raises \<open>e\<close>.\<close>

record DeviceState =
  d_force :: "Scalar4 list"
  d_virial :: "Scalar list"
  d_flags :: "32 word"
  tuner_running :: bool
  host_flag_reads :: nat

definition triangle_error :: error where
  "triangle_error = RuntimeError ''Error in meshtriangle calculation''"

definition gpu_computeForces ::
  "bool \<Rightarrow> error option \<Rightarrow> (DeviceState \<Rightarrow> DeviceState) \<Rightarrow> DeviceState \<Rightarrow> error + DeviceState" where
  "gpu_computeForces isCUDAErrorCheckingEnabled CHECK_CUDA_ERROR launch d =
     (let d1 = launch (d\<lparr>tuner_running := True\<rparr>)
      in if isCUDAErrorCheckingEnabled then
           (case CHECK_CUDA_ERROR of
              Some e \<Rightarrow> Inl e
            | None \<Rightarrow>
                let d2 = d1\<lparr>host_flag_reads := host_flag_reads d1 + 1\<rparr>
                in if d_flags d2 AND 1 \<noteq> 0 then Inl triangle_error
                   else Inr (d2\<lparr>tuner_running := False\<rparr>))
         else Inr (d1\<lparr>tuner_running := False\<rparr>))"

section \<open>Quantities the statements use\<close>

text \<open>How many of the three vertices of a triangle resolve to the local index \<open>p\<close> and
  are owned, that is, how many of the guarded blocks write slot \<open>p\<close>.\<close>

definition owned_hits :: "ParticleData \<Rightarrow> MeshTriangle \<Rightarrow> nat \<Rightarrow> nat" where
  "owned_hits pd t p =
     length (filter (\<lambda>tag. h_rtag pd ! tag = p \<and> p < getN pd) [tag_a t, tag_b t, tag_c t])"

text \<open>What one guarded block for index \<open>idx\<close> adds to slot \<open>p\<close>.\<close>

definition hit :: "nat \<Rightarrow> nat \<Rightarrow> nat \<Rightarrow> Scalar \<Rightarrow> Scalar" where
  "hit n idx p x = (if idx = p \<and> idx < n then x else 0)"

text \<open>The force part of a buffer slot.\<close>

definition force3 :: "Scalar4 \<Rightarrow> Scalar3" where
  "force3 q = Scalar3 (fx q) (fy q) (fz q)"

text \<open>Buffers \<open>c\<close> agree with buffers \<open>b\<close> on every slot of a particle that is not
  owned.\<close>

definition ghosts_kept :: "nat \<Rightarrow> nat \<Rightarrow> buffers \<Rightarrow> buffers \<Rightarrow> bool" where
  "ghosts_kept n pitch b c \<longleftrightarrow>
     length (fst c) = length (fst b) \<and> length (snd c) = length (snd b)
     \<and> (\<forall>p. n \<le> p \<and> p < length (fst b) \<longrightarrow> fst c ! p = fst b ! p)
     \<and> (\<forall>k p. n \<le> p \<and> p < pitch \<longrightarrow> snd c ! (k * pitch + p) = snd b ! (k * pitch + p))"

text \<open>The area of a triangle from the edge terms of the force loops.\<close>

definition geom_area :: "TriGeom \<Rightarrow> Scalar" where
  "geom_area g = rab g * rac g * s_baac g / 2"

text \<open>How many vertices of a triangle the rank owns, and the area of the triangle from
  the edge terms of the force loops.\<close>

definition owned_vertices :: "ParticleData \<Rightarrow> MeshTriangle \<Rightarrow> nat" where
  "owned_vertices pd t =
     length (filter (\<lambda>tag. h_rtag pd ! tag < getN pd) [tag_a t, tag_b t, tag_c t])"

definition force_area :: "ParticleData \<Rightarrow> MeshTriangle \<Rightarrow> Scalar" where
  "force_area pd t =
     geom_area (force_geom pd (h_rtag pd ! tag_a t) (h_rtag pd ! tag_b t) (h_rtag pd ! tag_c t))"

text \<open>The area of a triangle as \<^verbatim>\<open>precomputeParameter\<close> computes it on a rank, and what
  the triangle adds to the rank's per-type vector: a third of the area for every owned
  vertex under domain decomposition, the whole area otherwise.\<close>

definition area_of :: "ParticleData \<Rightarrow> MeshTriangle \<Rightarrow> Scalar" where
  "area_of pd t =
     tri_area pd (h_rtag pd ! tag_a t) (h_rtag pd ! tag_b t) (h_rtag pd ! tag_c t)"

definition area_share :: "ParticleData \<Rightarrow> MeshTriangle \<Rightarrow> Scalar" where
  "area_share pd t =
     (if getDomainDecomposition pd then real (owned_vertices pd t) * (area_of pd t / 3)
      else area_of pd t)"

text \<open>Modelled from the spec: the collective sum-reduction of the distributed runtime
  (\<^verbatim>\<open>MPI_Allreduce\<close> with \<^verbatim>\<open>MPI_SUM\<close> over \<open>n\<close> components), which gives every rank the
  component-wise sum of the vectors of all ranks.\<close>

definition MPI_SUM :: "nat \<Rightarrow> Scalar list list \<Rightarrow> Scalar list" where
  "MPI_SUM n vs = map (\<lambda>i. \<Sum>v\<leftarrow>vs. v ! i) [0..<n]"

text \<open>The local indices of the three vertices of a triangle, and whether the triangle
  passes the assertions of the loop bodies.\<close>

definition vertex_indices :: "ParticleData \<Rightarrow> MeshTriangle \<Rightarrow> nat \<times> nat \<times> nat" where
  "vertex_indices pd t = (h_rtag pd ! tag_a t, h_rtag pd ! tag_b t, h_rtag pd ! tag_c t)"

definition asserts_pass :: "ParticleData \<Rightarrow> MeshTriangle \<Rightarrow> bool" where
  "asserts_pass pd t \<longleftrightarrow> lookup_indices pd t = Inr (vertex_indices pd t)"

text \<open>The edge terms that the force loops and \<^verbatim>\<open>precomputeParameter\<close> compute for a
  triangle.\<close>

definition force_geom_of :: "ParticleData \<Rightarrow> MeshTriangle \<Rightarrow> TriGeom" where
  "force_geom_of pd t =
     force_geom pd (h_rtag pd ! tag_a t) (h_rtag pd ! tag_b t) (h_rtag pd ! tag_c t)"

definition area_geom_of :: "ParticleData \<Rightarrow> MeshTriangle \<Rightarrow> TriGeom" where
  "area_geom_of pd t =
     edge_terms
       (minImage pd (vsub (pos3 pd (h_rtag pd ! tag_b t)) (pos3 pd (h_rtag pd ! tag_a t))))
       (minImage pd (vsub (pos3 pd (h_rtag pd ! tag_c t)) (pos3 pd (h_rtag pd ! tag_a t))))"

text \<open>No division of the source is by zero: the force loops divide by both edge
  lengths and, for the forces only, by the sine; \<^verbatim>\<open>precomputeParameter\<close> divides by both
  edge lengths.\<close>

definition nondegenerate :: "TriGeom \<Rightarrow> bool" where
  "nondegenerate g \<longleftrightarrow> rab g \<noteq> 0 \<and> rac g \<noteq> 0 \<and> s_baac g \<noteq> 0"

definition area_edges_nonzero :: "ParticleData \<Rightarrow> MeshTriangle \<Rightarrow> bool" where
  "area_edges_nonzero pd t \<longleftrightarrow> rab (area_geom_of pd t) \<noteq> 0 \<and> rac (area_geom_of pd t) \<noteq> 0"

definition force_edges_nonzero :: "ParticleData \<Rightarrow> MeshTriangle \<Rightarrow> bool" where
  "force_edges_nonzero pd t \<longleftrightarrow> rab (force_geom_of pd t) \<noteq> 0 \<and> rac (force_geom_of pd t) \<noteq> 0"

text \<open>The energy that one triangle adds to slot \<open>p\<close>: the per-vertex energy of the variant
  for every owned vertex of the triangle that is particle \<open>p\<close>.\<close>

definition tri_contribution :: "ParticleData \<Rightarrow> ForceCompute \<Rightarrow> MeshTriangle \<Rightarrow> nat \<Rightarrow> Scalar" where
  "tri_contribution pd s t p =
     real (owned_hits pd t p)
       * (m_K s ! type_id t / (6 * m_A0 s ! type_id t)
            * (geom_area (force_geom_of pd t) - m_A0 s ! type_id t)\<^sup>2)"

definition area_contribution ::
  "ParticleData \<Rightarrow> MeshDefinition \<Rightarrow> ForceCompute \<Rightarrow> MeshTriangle \<Rightarrow> nat \<Rightarrow> Scalar" where
  "area_contribution pd mesh s t p =
     (let ty = active_type (m_ignore_type s) t
      in real (owned_hits pd t p)
           * (m_K s ! ty * (m_area s ! ty - m_A0 s ! ty)\<^sup>2
                / (6 * m_A0 s ! ty * real (triN mesh (m_ignore_type s) ty))))"

text \<open>The per-type vector that a rank hands to the reduction.\<close>

definition rank_vector :: "bool \<Rightarrow> ParticleData \<times> MeshDefinition \<Rightarrow> Scalar list" where
  "rank_vector ig r = (case local_area (fst r) (snd r) ig of Inl e \<Rightarrow> [] | Inr v \<Rightarrow> v)"

section \<open>Example inputs\<close>

text \<open>A whole-mesh compute built with \<^verbatim>\<open>ignore_type = true\<close>: the constructor allocates
  one parameter slot.\<close>

definition collapsed_compute :: ForceCompute where
  "collapsed_compute =
     \<lparr>m_K = [5], m_A0 = [5], m_area = [0], m_ignore_type = True,
      m_force = replicate 4 zero4, m_virial = replicate 24 0, virial_pitch = 4,
      warnings = []\<rparr>"

text \<open>A compute over a mesh with two types.\<close>

definition typed_compute :: ForceCompute where
  "typed_compute =
     \<lparr>m_K = [5, 7], m_A0 = [5, 7], m_area = [0, 0], m_ignore_type = False,
      m_force = replicate 4 zero4, m_virial = replicate 24 0, virial_pitch = 4,
      warnings = []\<rparr>"

definition idle_device :: DeviceState where
  "idle_device =
     \<lparr>d_force = replicate 4 zero4, d_virial = replicate 24 0, d_flags = 0,
      tuner_running = False, host_flag_reads = 0\<rparr>"

text \<open>A kernel launch that finds a triangle out of bounds and sets bit 0 of the flag.\<close>

definition faulty_launch :: "DeviceState \<Rightarrow> DeviceState" where
  "faulty_launch d = d\<lparr>d_flags := d_flags d OR 1\<rparr>"

text \<open>Four particles at the origin and on the three axes, all owned, in a box so large
  that the minimum image leaves the edge vectors as they are.\<close>

definition owned_particles :: ParticleData where
  "owned_particles =
     \<lparr>h_pos = [Scalar4 0 0 0 0, Scalar4 1 0 0 0, Scalar4 0 1 0 0, Scalar4 0 0 1 0],
      h_rtag = [0, 1, 2, 3], getN = 4, getNGhosts = 0, getMaximumTag = 3,
      minImage = (\<lambda>v. v), pressure_tensor = True, getDomainDecomposition = False,
      MPI_Allreduce_SUM = (\<lambda>xs. xs)\<rparr>"

text \<open>The same particles when the rank owns the first two and holds the others as
  ghosts.\<close>

definition halo_particles :: ParticleData where
  "halo_particles = owned_particles\<lparr>getN := 2, getNGhosts := 2\<rparr>"

text \<open>A right isosceles triangle with legs of length 1, and a mesh of two of them.\<close>

definition tri_012 :: MeshTriangle where
  "tri_012 = \<lparr>tag_a = 0, tag_b = 1, tag_c = 2, type_id = 0\<rparr>"

definition tri_013 :: MeshTriangle where
  "tri_013 = \<lparr>tag_a = 0, tag_b = 1, tag_c = 3, type_id = 0\<rparr>"

definition one_triangle :: MeshDefinition where
  "one_triangle = \<lparr>h_triangles = [tri_012], getNTypes = 1, getSize = 1, h_pts = [1]\<rparr>"

definition two_triangles :: MeshDefinition where
  "two_triangles =
     \<lparr>h_triangles = [tri_012, tri_013], getNTypes = 1, getSize = 2, h_pts = [2]\<rparr>"

text \<open>A compute with \<open>K = 10\<close> and \<open>A0 = 0.4\<close> whose buffers hold values of the step
  before.\<close>

definition soft_compute :: ForceCompute where
  "soft_compute =
     \<lparr>m_K = [10], m_A0 = [2 / 5], m_area = [0], m_ignore_type = False,
      m_force = replicate 4 (Scalar4 9 9 9 9), m_virial = replicate 24 9, virial_pitch = 4,
      warnings = []\<rparr>"

text \<open>The edge terms of the triangle 0, 1, 2 of these particles.\<close>

definition unit_geom :: TriGeom where
  "unit_geom =
     \<lparr>dab = Scalar3 (- 1) 0 0, dac = Scalar3 0 (- 1) 0, rab = 1, rac = 1,
      nab = Scalar3 (- 1) 0 0, nac = Scalar3 0 (- 1) 0, s_baac = 1,
      ds_drab = Scalar3 0 0 0, ds_drac = Scalar3 0 0 0\<rparr>"

text \<open>The edge terms of the triangle 0, 1, 3, and the computes that the example runs
  return.\<close>

definition halo_result :: ForceCompute where
  "halo_result = soft_compute
     \<lparr>m_area := [1 / 2],
      m_force := [Scalar4 (5 / 4) (5 / 4) 0 (1 / 24), Scalar4 (- 5 / 4) 0 0 (1 / 24),
                  zero4, zero4],
      m_virial := [- 5 / 8, - 5 / 8, 0, 0,  0, 0, 0, 0,  0, 0, 0, 0,
                   - 5 / 8, 0, 0, 0,  0, 0, 0, 0,  0, 0, 0, 0]\<rparr>"

definition collapsed_result :: ForceCompute where
  "collapsed_result = collapsed_compute
     \<lparr>m_area := [1],
      m_force := [Scalar4 (- 4) (- 2) (- 2) (8 / 3), Scalar4 4 0 0 (8 / 3),
                  Scalar4 0 2 0 (4 / 3), Scalar4 0 0 2 (4 / 3)],
      m_virial := [2, 2, 0, 0,  0, 0, 0, 0,  0, 0, 0, 0,
                   1, 0, 1, 0,  0, 0, 0, 0,  1, 0, 0, 1]\<rparr>"

definition unit_geom_z :: TriGeom where
  "unit_geom_z =
     \<lparr>dab = Scalar3 (- 1) 0 0, dac = Scalar3 0 0 (- 1), rab = 1, rac = 1,
      nab = Scalar3 (- 1) 0 0, nac = Scalar3 0 0 (- 1), s_baac = 1,
      ds_drab = Scalar3 0 0 0, ds_drac = Scalar3 0 0 0\<rparr>"

text \<open>A compute whose target area is the area of the example triangle, and what
  \<open>computeForces\<close> returns for it.\<close>

definition target_compute :: ForceCompute where
  "target_compute = soft_compute\<lparr>m_A0 := [1 / 2]\<rparr>"

definition target_result :: ForceCompute where
  "target_result = target_compute
     \<lparr>m_area := [1 / 2], m_force := replicate 4 zero4, m_virial := replicate 24 0\<rparr>"

text \<open>What the per-triangle \<open>computeForces\<close> returns for the example triangle.\<close>

definition tri_result :: ForceCompute where
  "tri_result = soft_compute
     \<lparr>m_area := [1 / 2],
      m_force := [Scalar4 (5 / 4) (5 / 4) 0 (1 / 24), Scalar4 (- 5 / 4) 0 0 (1 / 24),
                  Scalar4 0 (- 5 / 4) 0 (1 / 24), zero4],
      m_virial := [- 5 / 8, - 5 / 8, 0, 0,  0, 0, 0, 0,  0, 0, 0, 0,
                   - 5 / 8, 0, - 5 / 8, 0,  0, 0, 0, 0,  0, 0, 0, 0]\<rparr>"

text \<open>Six owned particles in two triangles that share no vertex, and a compute with
  buffers for them.\<close>

definition tri_345 :: MeshTriangle where
  "tri_345 = \<lparr>tag_a = 3, tag_b = 4, tag_c = 5, type_id = 0\<rparr>"

definition six_particles :: ParticleData where
  "six_particles =
     \<lparr>h_pos = [Scalar4 0 0 0 0, Scalar4 1 0 0 0, Scalar4 0 1 0 0,
               Scalar4 5 0 0 0, Scalar4 6 0 0 0, Scalar4 5 1 0 0],
      h_rtag = [0, 1, 2, 3, 4, 5], getN = 6, getNGhosts = 0, getMaximumTag = 5,
      minImage = (\<lambda>v. v), pressure_tensor = False, getDomainDecomposition = False,
      MPI_Allreduce_SUM = (\<lambda>xs. xs)\<rparr>"

definition apart_triangles :: MeshDefinition where
  "apart_triangles =
     \<lparr>h_triangles = [tri_012, tri_345], getNTypes = 1, getSize = 2, h_pts = [2]\<rparr>"

definition wide_compute :: ForceCompute where
  "wide_compute =
     \<lparr>m_K = [10], m_A0 = [2 / 5], m_area = [0], m_ignore_type = False,
      m_force = replicate 6 (Scalar4 9 9 9 9), m_virial = replicate 36 9, virial_pitch = 6,
      warnings = []\<rparr>"

text \<open>The four example particles on two ranks: the west rank owns the particles with
  tags 0 and 1, the east rank those with tags 2 and 3 and keeps them in its first two
  slots; each holds the other two as ghosts. The collective of a rank adds the vector of
  the other rank to its own.\<close>

definition west_rank :: ParticleData where
  "west_rank = owned_particles
     \<lparr>getN := 2, getNGhosts := 2, getDomainDecomposition := True,
      MPI_Allreduce_SUM := (\<lambda>v. map2 (+) v [1 / 3])\<rparr>"

definition east_rank :: ParticleData where
  "east_rank =
     \<lparr>h_pos = [Scalar4 0 1 0 0, Scalar4 0 0 1 0, Scalar4 0 0 0 0, Scalar4 1 0 0 0],
      h_rtag = [2, 3, 0, 1], getN = 2, getNGhosts = 2, getMaximumTag = 3,
      minImage = (\<lambda>v. v), pressure_tensor = True, getDomainDecomposition = True,
      MPI_Allreduce_SUM = (\<lambda>v. map2 (+) v [2 / 3])\<rparr>"

section \<open>Lemmas on the buffers and the loop\<close>

subsection \<open>Writes to the buffers\<close>

lemma length_add_force [simp]: "length (add_force idx F e f) = length f"
  by (simp add: add_force_def)

lemma fold_update_length:
  "length (fold (\<lambda>j v. v[g j := v ! g j + h j]) js v) = length (v :: real list)"
  by (induction js arbitrary: v) simp_all

lemma fold_update_other:
  "\<forall>j\<in>set js. g j \<noteq> k \<Longrightarrow> fold (\<lambda>j v. v[g j := v ! g j + h j]) js v ! k = (v :: real list) ! k"
  by (induction js arbitrary: v) simp_all

lemma length_add_virial [simp]: "length (add_virial pitch idx av v) = length v"
  by (simp add: add_virial_def fold_update_length)

lemma slot_neq:
  "idx < pitch \<Longrightarrow> p < pitch \<Longrightarrow> idx \<noteq> p \<Longrightarrow> j * pitch + idx \<noteq> k * pitch + (p::nat)"
  by (metis mod_less mod_mult_self3)

lemma add_virial_other:
  assumes "idx < pitch" "p < pitch" "idx \<noteq> p"
  shows "add_virial pitch idx av v ! (k * pitch + p) = v ! (k * pitch + p)"
  unfolding add_virial_def
  by (rule fold_update_other) (simp add: slot_neq [OF assms])

lemma add_force_nth:
  "p < length f \<Longrightarrow> add_force idx F e f ! p =
     (if p = idx then Scalar4 (fx (f ! p) + vx F) (fy (f ! p) + vy F) (fz (f ! p) + vz F)
                              (fw (f ! p) + e)
      else f ! p)"
  by (simp add: add_force_def nth_list_update)

lemma sum_list_add_at:
  "idx < length xs \<Longrightarrow> sum_list (xs[idx := xs ! idx + a]) = sum_list xs + (a::real)"
  by (induction xs arbitrary: idx) (auto split: nat.splits)

lemma sum_fw_add_force:
  "idx < length f \<Longrightarrow> sum_list (map fw (add_force idx F e f)) = sum_list (map fw f) + e"
  using sum_list_add_at [of idx "map fw f" e] by (simp add: add_force_def map_update)

lemma sum_fx_add_force:
  "idx < length f \<Longrightarrow> sum_list (map fx (add_force idx F e f)) = sum_list (map fx f) + vx F"
  using sum_list_add_at [of idx "map fx f" "vx F"] by (simp add: add_force_def map_update)

lemma sum_fy_add_force:
  "idx < length f \<Longrightarrow> sum_list (map fy (add_force idx F e f)) = sum_list (map fy f) + vy F"
  using sum_list_add_at [of idx "map fy f" "vy F"] by (simp add: add_force_def map_update)

lemma sum_fz_add_force:
  "idx < length f \<Longrightarrow> sum_list (map fz (add_force idx F e f)) = sum_list (map fz f) + vz F"
  using sum_list_add_at [of idx "map fz f" "vz F"] by (simp add: add_force_def map_update)

lemma length_update_vertex [simp]:
  "length (fst (update_vertex n pitch idx F e av b)) = length (fst b)"
  "length (snd (update_vertex n pitch idx F e av b)) = length (snd b)"
  by (simp_all add: update_vertex_def)

lemma length_apply_triangle [simp]:
  "length (fst (apply_triangle pd pitch idx g Fab Fac e b)) = length (fst b)"
  "length (snd (apply_triangle pd pitch idx g Fab Fac e b)) = length (snd b)"
  by (simp_all add: apply_triangle_def split: prod.splits)

text \<open>A slot at or beyond the owned count is never written.\<close>

lemma update_vertex_ghost_force:
  "n \<le> p \<Longrightarrow> p < length (fst b) \<Longrightarrow> fst (update_vertex n pitch idx F e av b) ! p = fst b ! p"
  by (simp add: update_vertex_def add_force_nth)

lemma update_vertex_ghost_virial:
  "n \<le> p \<Longrightarrow> p < pitch \<Longrightarrow>
     snd (update_vertex n pitch idx F e av b) ! (k * pitch + p) = snd b ! (k * pitch + p)"
  by (simp add: update_vertex_def add_virial_other)

lemma apply_triangle_ghost_force:
  "getN pd \<le> p \<Longrightarrow> p < length (fst b) \<Longrightarrow>
     fst (apply_triangle pd pitch idx g Fab Fac e b) ! p = fst b ! p"
  by (simp add: apply_triangle_def update_vertex_ghost_force split: prod.splits)

lemma apply_triangle_ghost_virial:
  "getN pd \<le> p \<Longrightarrow> p < pitch \<Longrightarrow>
     snd (apply_triangle pd pitch idx g Fab Fac e b) ! (k * pitch + p) = snd b ! (k * pitch + p)"
  by (simp add: apply_triangle_def update_vertex_ghost_virial split: prod.splits)

text \<open>What a slot receives from one vertex block and from one triangle.\<close>

lemma update_vertex_slot:
  assumes "p < length (fst b)"
  shows "fx (fst (update_vertex n pitch idx F e av b) ! p) = fx (fst b ! p) + hit n idx p (vx F)"
    and "fy (fst (update_vertex n pitch idx F e av b) ! p) = fy (fst b ! p) + hit n idx p (vy F)"
    and "fz (fst (update_vertex n pitch idx F e av b) ! p) = fz (fst b ! p) + hit n idx p (vz F)"
    and "fw (fst (update_vertex n pitch idx F e av b) ! p) = fw (fst b ! p) + hit n idx p e"
  using assms by (simp_all add: update_vertex_def add_force_nth hit_def)

lemma apply_triangle_slot:
  assumes "p < length (fst b)"
  shows "fx (fst (apply_triangle pd pitch (ia, ib, ic) g Fab Fac e b) ! p) =
           fx (fst b ! p) + hit (getN pd) ia p (vx Fab + vx Fac)
             + hit (getN pd) ib p (- vx Fab) + hit (getN pd) ic p (- vx Fac)"
    and "fy (fst (apply_triangle pd pitch (ia, ib, ic) g Fab Fac e b) ! p) =
           fy (fst b ! p) + hit (getN pd) ia p (vy Fab + vy Fac)
             + hit (getN pd) ib p (- vy Fab) + hit (getN pd) ic p (- vy Fac)"
    and "fz (fst (apply_triangle pd pitch (ia, ib, ic) g Fab Fac e b) ! p) =
           fz (fst b ! p) + hit (getN pd) ia p (vz Fab + vz Fac)
             + hit (getN pd) ib p (- vz Fab) + hit (getN pd) ic p (- vz Fac)"
    and "fw (fst (apply_triangle pd pitch (ia, ib, ic) g Fab Fac e b) ! p) =
           fw (fst b ! p) + hit (getN pd) ia p e + hit (getN pd) ib p e + hit (getN pd) ic p e"
  using assms by (simp_all add: apply_triangle_def update_vertex_slot vadd_def vneg_def)

lemma update_vertex_total:
  assumes "idx < n" "idx < length (fst b)"
  shows "sum_list (map fx (fst (update_vertex n pitch idx F e av b))) = sum_list (map fx (fst b)) + vx F"
    and "sum_list (map fy (fst (update_vertex n pitch idx F e av b))) = sum_list (map fy (fst b)) + vy F"
    and "sum_list (map fz (fst (update_vertex n pitch idx F e av b))) = sum_list (map fz (fst b)) + vz F"
    and "sum_list (map fw (fst (update_vertex n pitch idx F e av b))) = sum_list (map fw (fst b)) + e"
  using assms
  by (simp_all add: update_vertex_def sum_fx_add_force sum_fy_add_force sum_fz_add_force
        sum_fw_add_force)

lemma apply_triangle_total:
  assumes "ia < getN pd" "ib < getN pd" "ic < getN pd" "getN pd \<le> length (fst b)"
  shows "sum_list (map fx (fst (apply_triangle pd pitch (ia, ib, ic) g Fab Fac e b))) = sum_list (map fx (fst b))"
    and "sum_list (map fy (fst (apply_triangle pd pitch (ia, ib, ic) g Fab Fac e b))) = sum_list (map fy (fst b))"
    and "sum_list (map fz (fst (apply_triangle pd pitch (ia, ib, ic) g Fab Fac e b))) = sum_list (map fz (fst b))"
    and "sum_list (map fw (fst (apply_triangle pd pitch (ia, ib, ic) g Fab Fac e b))) = sum_list (map fw (fst b)) + 3 * e"
  using assms by (simp_all add: apply_triangle_def update_vertex_total vadd_def vneg_def)

subsection \<open>The loop\<close>

lemma for_each_invariant:
  "for_each body ts s = Inr s' \<Longrightarrow> P s
     \<Longrightarrow> \<forall>t\<in>set ts. \<forall>s s'. P s \<longrightarrow> body t s = Inr s' \<longrightarrow> P s'
     \<Longrightarrow> P s'"
proof (induction ts arbitrary: s)
  case Nil
  then show ?case by simp
next
  case (Cons t ts)
  show ?case
  proof (cases "body t s")
    case (Inl e)
    with Cons.prems(1) show ?thesis by simp
  next
    case (Inr s1)
    with Cons.prems(1) have run: "for_each body ts s1 = Inr s'" by simp
    have step: "\<forall>s s'. P s \<longrightarrow> body t s = Inr s' \<longrightarrow> P s'"
      by (rule bspec [OF Cons.prems(3)]) simp
    have "P s1" using step Cons.prems(2) Inr by blast
    moreover have "\<forall>u\<in>set ts. \<forall>s s'. P s \<longrightarrow> body u s = Inr s' \<longrightarrow> P s'"
    proof
      fix u assume "u \<in> set ts"
      then have "u \<in> set (t # ts)" by simp
      from bspec [OF Cons.prems(3) this]
      show "\<forall>s s'. P s \<longrightarrow> body u s = Inr s' \<longrightarrow> P s'" .
    qed
    ultimately show ?thesis by (rule Cons.IH [OF run])
  qed
qed

lemma for_each_returns:
  "\<forall>t\<in>set ts. \<forall>s. \<exists>s'. body t s = Inr s' \<Longrightarrow> \<exists>s'. for_each body ts s = Inr s'"
proof (induction ts arbitrary: s)
  case Nil
  then show ?case by simp
next
  case (Cons t ts)
  have "\<forall>s. \<exists>s'. body t s = Inr s'"
    by (rule bspec [OF Cons.prems]) simp
  then obtain s1 where s1: "body t s = Inr s1" by blast
  have "\<forall>u\<in>set ts. \<forall>s. \<exists>s'. body u s = Inr s'"
  proof
    fix u assume "u \<in> set ts"
    then have "u \<in> set (t # ts)" by simp
    from bspec [OF Cons.prems this] show "\<forall>s. \<exists>s'. body u s = Inr s'" .
  qed
  from Cons.IH [OF this, of s1] show ?case by (simp add: s1)
qed

subsection \<open>One triangle\<close>

lemma force_body_eq:
  assumes "lookup_indices pd t = Inr (ia, ib, ic)"
  shows "force_body pd mesh s t b =
     Inr (apply_triangle pd (virial_pitch s) (ia, ib, ic) (force_geom pd ia ib ic)
            (force_ab (area_prefactor s (active_type (m_ignore_type s) t)) (force_geom pd ia ib ic))
            (force_ac (area_prefactor s (active_type (m_ignore_type s) t)) (force_geom pd ia ib ic))
            (area_energy mesh s (active_type (m_ignore_type s) t)) b)"
  using assms by (simp add: force_body_def Let_def)

lemma tri_force_body_eq:
  assumes "lookup_indices pd t = Inr (ia, ib, ic)"
  shows "\<exists>ga'. tri_force_body pd s t (ga, b) =
     Inr (ga', apply_triangle pd (virial_pitch s) (ia, ib, ic) (force_geom pd ia ib ic)
            (force_ab (tri_prefactor s (type_id t) (force_geom pd ia ib ic)) (force_geom pd ia ib ic))
            (force_ac (tri_prefactor s (type_id t) (force_geom pd ia ib ic)) (force_geom pd ia ib ic))
            (tri_energy s (type_id t) (force_geom pd ia ib ic)) b)"
  using assms by (simp add: tri_force_body_def Let_def)

lemma apply_triangle_vertices:
  assumes "ia < getN pd" "ib < getN pd" "ic < getN pd" "getN pd \<le> length (fst b)"
    and "distinct [ia, ib, ic]"
  shows "force3 (fst (apply_triangle pd pitch (ia, ib, ic) g Fab Fac e b) ! ia)
           = vadd (force3 (fst b ! ia)) (vadd Fab Fac)"
    and "force3 (fst (apply_triangle pd pitch (ia, ib, ic) g Fab Fac e b) ! ib)
           = vadd (force3 (fst b ! ib)) (vneg Fab)"
    and "force3 (fst (apply_triangle pd pitch (ia, ib, ic) g Fab Fac e b) ! ic)
           = vadd (force3 (fst b ! ic)) (vneg Fac)"
    and "fw (fst (apply_triangle pd pitch (ia, ib, ic) g Fab Fac e b) ! ia) = fw (fst b ! ia) + e"
    and "fw (fst (apply_triangle pd pitch (ia, ib, ic) g Fab Fac e b) ! ib) = fw (fst b ! ib) + e"
    and "fw (fst (apply_triangle pd pitch (ia, ib, ic) g Fab Fac e b) ! ic) = fw (fst b ! ic) + e"
  using assms by (simp_all add: force3_def apply_triangle_slot hit_def vadd_def vneg_def)

lemma forces_cancel: "vadd (vadd (vadd Fab Fac) (vneg Fab)) (vneg Fac) = zero3"
  by (simp add: vadd_def vneg_def zero3_def)


lemma tri_Ut_area: "tri_Ut s ty g = geom_area g - m_A0 s ! ty"
  by (simp add: tri_Ut_def geom_area_def)

lemma tri_energy_area:
  "tri_energy s ty g = m_K s ! ty / (6 * m_A0 s ! ty) * (geom_area g - m_A0 s ! ty)\<^sup>2"
  by (simp add: tri_energy_def tri_Ut_area power2_eq_square)

lemma area_energy_formula:
  "area_energy mesh s ty =
     m_K s ! ty * (m_area s ! ty - m_A0 s ! ty)\<^sup>2
       / (6 * m_A0 s ! ty * real (triN mesh (m_ignore_type s) ty))"
  by (simp add: area_energy_def Let_def power2_eq_square mult.assoc)

lemma area_energy_total:
  "3 * area_energy mesh s ty =
     m_K s ! ty * (m_area s ! ty - m_A0 s ! ty)\<^sup>2
       / (2 * m_A0 s ! ty * real (triN mesh (m_ignore_type s) ty))"
  by (simp add: area_energy_formula)

lemma hit_zero [simp]: "hit n i p 0 = 0"
  by (simp add: hit_def)

lemma force_zero_prefactor [simp]:
  "force_ab 0 g = Scalar3 0 0 0" "force_ac 0 g = Scalar3 0 0 0"
  by (simp_all add: force_ab_def force_ac_def smul_def)

lemma apply_triangle_nothing:
  assumes "p < length (fst b)"
  shows "fst (apply_triangle pd pitch (ia, ib, ic) g (Scalar3 0 0 0) (Scalar3 0 0 0) 0 b) ! p
           = fst b ! p"
  by (rule Scalar4.expand) (simp add: apply_triangle_slot [OF assms])

lemma area_at_target:
  assumes "m_area s ! ty = m_A0 s ! ty"
  shows "area_prefactor s ty = 0" and "area_energy mesh s ty = 0"
  using assms by (simp_all add: area_prefactor_def area_energy_def)

subsection \<open>Slots that the loops leave alone\<close>

lemma ghosts_kept_refl: "ghosts_kept n pitch b b"
  by (simp add: ghosts_kept_def)

lemma ghosts_kept_apply:
  "ghosts_kept (getN pd) pitch b c \<Longrightarrow>
     ghosts_kept (getN pd) pitch b (apply_triangle pd pitch idx g Fab Fac e c)"
  by (simp add: ghosts_kept_def apply_triangle_ghost_force apply_triangle_ghost_virial)

lemma force_body_frame:
  assumes "force_body pd mesh s t c = Inr c'" and "ghosts_kept (getN pd) (virial_pitch s) b c"
  shows "ghosts_kept (getN pd) (virial_pitch s) b c'"
  using assms
  by (auto simp add: force_body_def Let_def ghosts_kept_apply split: sum.splits prod.splits)

lemma tri_force_body_frame:
  assumes "tri_force_body pd s t st = Inr st'"
    and "ghosts_kept (getN pd) (virial_pitch s) b (snd st)"
  shows "ghosts_kept (getN pd) (virial_pitch s) b (snd st')"
  using assms
  by (auto simp add: tri_force_body_def Let_def ghosts_kept_apply split: sum.splits prod.splits)

lemma force_loop_frame:
  assumes "for_each (force_body pd mesh s) ts b = Inr b'"
  shows "ghosts_kept (getN pd) (virial_pitch s) b b'"
  by (rule for_each_invariant [OF assms, where P = "ghosts_kept (getN pd) (virial_pitch s) b"])
     (auto simp add: ghosts_kept_refl intro: force_body_frame)

lemma tri_force_loop_frame:
  assumes "for_each (tri_force_body pd s) ts st = Inr st'"
  shows "ghosts_kept (getN pd) (virial_pitch s) (snd st) (snd st')"
  by (rule for_each_invariant [OF assms,
        where P = "\<lambda>c. ghosts_kept (getN pd) (virial_pitch s) (snd st) (snd c)"])
     (use tri_force_body_frame in \<open>fastforce simp add: ghosts_kept_refl\<close>)+

lemma ghosts_kept_zero:
  assumes "ghosts_kept n (virial_pitch s) (zero_buffers s) b"
  shows "length (fst b) = length (m_force s)" and "length (snd b) = length (m_virial s)"
    and "n \<le> p \<Longrightarrow> p < length (m_force s) \<Longrightarrow> fst b ! p = zero4"
    and "n \<le> p \<Longrightarrow> p < virial_pitch s \<Longrightarrow> k * virial_pitch s + p < length (m_virial s)
           \<Longrightarrow> snd b ! (k * virial_pitch s + p) = 0"
  using assms by (simp_all add: ghosts_kept_def zero_buffers_def)


subsection \<open>Running the loops\<close>

lemma computeForces_Inr:
  assumes "computeForces pd mesh s = Inr s'"
  shows "\<exists>s1 b. precomputeParameter pd mesh s = Inr s1
           \<and> for_each (force_body pd mesh s1) (h_triangles mesh) (zero_buffers s1) = Inr b
           \<and> s' = store_buffers s1 b"
  using assms by (auto simp add: computeForces_def split: sum.splits)

lemma precomputeParameter_fields:
  assumes "precomputeParameter pd mesh s = Inr s1"
  shows "m_K s1 = m_K s" "m_A0 s1 = m_A0 s" "m_ignore_type s1 = m_ignore_type s"
    "m_force s1 = m_force s" "m_virial s1 = m_virial s" "virial_pitch s1 = virial_pitch s"
    "warnings s1 = warnings s"
  using assms by (auto simp add: precomputeParameter_def split: sum.splits)

lemma tri_computeForces_Inr:
  assumes "tri_computeForces pd mesh s = Inr s'"
  shows "\<exists>ga b. for_each (tri_force_body pd s) (h_triangles mesh)
                   (replicate (getNTypes mesh) 0, zero_buffers s) = Inr (ga, b)
           \<and> s' = (store_buffers s b)
                 \<lparr>m_area := store_area (getNTypes mesh) (reduce_area pd ga) (m_area s)\<rparr>"
  using assms by (auto simp add: tri_computeForces_def split: sum.splits prod.splits)

lemma owned_hits_hit:
  assumes "lookup_indices pd t = Inr (ia, ib, ic)"
  shows "real (owned_hits pd t p) * e
           = hit (getN pd) ia p e + hit (getN pd) ib p e + hit (getN pd) ic p e"
  using assms
  by (auto simp add: lookup_indices_def owned_hits_def hit_def Let_def split: if_splits)

lemma force_body_energy:
  assumes "force_body pd mesh s t b = Inr b'" and "p < length (fst b)"
  shows "fw (fst b' ! p) = fw (fst b ! p)
           + real (owned_hits pd t p) * area_energy mesh s (active_type (m_ignore_type s) t)"
proof (cases "lookup_indices pd t")
  case (Inl e)
  with assms(1) show ?thesis by (simp add: force_body_def)
next
  case (Inr idx)
  obtain ia ib ic where idx: "idx = (ia, ib, ic)" by (cases idx) auto
  have look: "lookup_indices pd t = Inr (ia, ib, ic)" using Inr idx by simp
  from force_body_eq [OF look] assms(1)
  have b': "b' = apply_triangle pd (virial_pitch s) (ia, ib, ic) (force_geom pd ia ib ic)
            (force_ab (area_prefactor s (active_type (m_ignore_type s) t)) (force_geom pd ia ib ic))
            (force_ac (area_prefactor s (active_type (m_ignore_type s) t)) (force_geom pd ia ib ic))
            (area_energy mesh s (active_type (m_ignore_type s) t)) b"
    by simp
  show ?thesis
    unfolding b' by (simp add: apply_triangle_slot(4) [OF assms(2)] owned_hits_hit [OF look])
qed

lemma force_loop_energy:
  assumes "for_each (force_body pd mesh s) ts b = Inr b'" and "p < length (fst b)"
  shows "fw (fst b' ! p) = fw (fst b ! p)
           + (\<Sum>t\<leftarrow>ts. real (owned_hits pd t p)
                       * area_energy mesh s (active_type (m_ignore_type s) t))"
  using assms
proof (induction ts arbitrary: b)
  case Nil
  then show ?case by simp
next
  case (Cons t ts)
  show ?case
  proof (cases "force_body pd mesh s t b")
    case (Inl e)
    with Cons.prems(1) show ?thesis by simp
  next
    case (Inr b1)
    with Cons.prems(1) have run: "for_each (force_body pd mesh s) ts b1 = Inr b'" by simp
    have len: "p < length (fst b1)"
      using force_body_frame [OF Inr ghosts_kept_refl] Cons.prems(2) by (simp add: ghosts_kept_def)
    show ?thesis
      using Cons.IH [OF run len] force_body_energy [OF Inr Cons.prems(2)] by simp
  qed
qed

subsection \<open>The per-type area vector\<close>

lemma add_at_nth:
  "k < length xs \<Longrightarrow> add_at i a xs ! k = xs ! k + (if i = k then a else 0)"
  by (simp add: add_at_def nth_list_update)

lemma length_add_at [simp]: "length (add_at i a xs) = length xs"
  by (simp add: add_at_def)

lemma length_add_if [simp]: "length (add_if c i a xs) = length xs"
  by (simp add: add_if_def)

lemma add_if_nth:
  "k < length xs \<Longrightarrow> add_if c i a xs ! k = xs ! k + (if c \<and> i = k then a else 0)"
  by (simp add: add_if_def add_at_nth)

lemma length_store_area [simp]: "length (store_area n g a) = length a"
  by (induction n) (simp_all add: store_area_def)

lemma store_area_Suc: "store_area (Suc n) g a = (store_area n g a)[n := g ! n]"
  by (simp add: store_area_def)

lemma store_area_nth:
  "k < length a \<Longrightarrow> store_area n g a ! k = (if k < n then g ! k else a ! k)"
proof (induction n)
  case 0
  then show ?case by (simp add: store_area_def)
next
  case (Suc n)
  show ?case
  proof (cases "k = n")
    case True
    then show ?thesis using Suc.prems by (simp add: store_area_Suc)
  next
    case False
    then show ?thesis using Suc by (simp add: store_area_Suc)
  qed
qed

lemma lookup_indices_Inr:
  assumes "lookup_indices pd t = Inr (ia, ib, ic)"
  shows "ia = h_rtag pd ! tag_a t" "ib = h_rtag pd ! tag_b t" "ic = h_rtag pd ! tag_c t"
  using assms by (auto simp add: lookup_indices_def Let_def split: if_splits)

lemma owned_vertices_sum:
  "real (owned_vertices pd t) * a =
     (if h_rtag pd ! tag_a t < getN pd then a else 0)
   + (if h_rtag pd ! tag_b t < getN pd then a else 0)
   + (if h_rtag pd ! tag_c t < getN pd then a else 0)"
  by (simp add: owned_vertices_def)

lemma tri_force_body_area:
  assumes "tri_force_body pd s t st = Inr st'" and "k < length (fst st)"
  shows "length (fst st') = length (fst st)"
    and "fst st' ! k = fst st ! k
           + (if type_id t = k then real (owned_vertices pd t) * (force_area pd t / 3) else 0)"
proof -
  obtain ia ib ic where look: "lookup_indices pd t = Inr (ia, ib, ic)"
    using assms(1) by (cases "lookup_indices pd t") (auto simp add: tri_force_body_def)
  note idx = lookup_indices_Inr [OF look]
  have third: "rab g * rac g * s_baac g / 6 = geom_area g / 3" for g
    by (simp add: geom_area_def)
  from assms(1) look
  have st': "fst st' =
      add_if (ic < getN pd) (type_id t) (geom_area (force_geom pd ia ib ic) / 3)
        (add_if (ib < getN pd) (type_id t) (geom_area (force_geom pd ia ib ic) / 3)
          (add_if (ia < getN pd) (type_id t) (geom_area (force_geom pd ia ib ic) / 3) (fst st)))"
    by (auto simp add: tri_force_body_def Let_def third)
  show "length (fst st') = length (fst st)" by (simp add: st')
  show "fst st' ! k = fst st ! k
           + (if type_id t = k then real (owned_vertices pd t) * (force_area pd t / 3) else 0)"
    using assms(2)
    by (simp add: st' add_if_nth owned_vertices_sum force_area_def idx [symmetric])
qed

lemma tri_force_loop_area:
  assumes "for_each (tri_force_body pd s) ts st = Inr st'" and "k < length (fst st)"
  shows "fst st' ! k = fst st ! k
           + (\<Sum>t\<leftarrow>ts. if type_id t = k
                       then real (owned_vertices pd t) * (force_area pd t / 3) else 0)"
  using assms
proof (induction ts arbitrary: st)
  case Nil
  then show ?case by simp
next
  case (Cons t ts)
  show ?case
  proof (cases "tri_force_body pd s t st")
    case (Inl e)
    with Cons.prems(1) show ?thesis by simp
  next
    case (Inr st1)
    with Cons.prems(1) have run: "for_each (tri_force_body pd s) ts st1 = Inr st'" by simp
    note step = tri_force_body_area [OF Inr Cons.prems(2)]
    have len: "k < length (fst st1)" using step(1) Cons.prems(2) by simp
    show ?thesis using Cons.IH [OF run len] step(2) by simp
  qed
qed

lemma sum_list_if_filter:
  "(\<Sum>x\<leftarrow>xs. if P x then f x else (0::real)) = (\<Sum>x\<leftarrow>filter P xs. f x)"
  by (induction xs) simp_all

lemma area_body_nth:
  assumes "area_body pd ig t ga = Inr ga'" and "k < length ga"
  shows "length ga' = length ga"
    and "ga' ! k = ga ! k + (if active_type ig t = k then area_share pd t else 0)"
proof -
  obtain ia ib ic where look: "lookup_indices pd t = Inr (ia, ib, ic)"
    using assms(1) by (cases "lookup_indices pd t") (auto simp add: area_body_def)
  note idx = lookup_indices_Inr [OF look]
  from assms(1) look
  have ga': "ga' =
      (if getDomainDecomposition pd then
         add_if (ic < getN pd) (active_type ig t) (area_of pd t / 3)
           (add_if (ib < getN pd) (active_type ig t) (area_of pd t / 3)
             (add_if (ia < getN pd) (active_type ig t) (area_of pd t / 3) ga))
       else add_at (active_type ig t) (area_of pd t) ga)"
    by (auto simp add: area_body_def Let_def area_of_def idx [symmetric])
  show "length ga' = length ga" by (simp add: ga')
  show "ga' ! k = ga ! k + (if active_type ig t = k then area_share pd t else 0)"
    using assms(2)
    by (simp add: ga' add_if_nth add_at_nth area_share_def owned_vertices_sum idx [symmetric])
qed

lemma area_loop_nth:
  assumes "for_each (area_body pd ig) ts ga = Inr ga'" and "k < length ga"
  shows "ga' ! k = ga ! k + (\<Sum>t\<leftarrow>ts. if active_type ig t = k then area_share pd t else 0)"
  using assms
proof (induction ts arbitrary: ga)
  case Nil
  then show ?case by simp
next
  case (Cons t ts)
  show ?case
  proof (cases "area_body pd ig t ga")
    case (Inl e)
    with Cons.prems(1) show ?thesis by simp
  next
    case (Inr ga1)
    with Cons.prems(1) have run: "for_each (area_body pd ig) ts ga1 = Inr ga'" by simp
    note step = area_body_nth [OF Inr Cons.prems(2)]
    have len: "k < length ga1" using step(1) Cons.prems(2) by simp
    show ?thesis using Cons.IH [OF run len] step(2) by simp
  qed
qed

lemma local_area_nth:
  assumes "local_area pd mesh ig = Inr ga" and "k < getNTypes mesh"
  shows "ga ! k = (\<Sum>t\<leftarrow>h_triangles mesh. if active_type ig t = k then area_share pd t else 0)"
  using area_loop_nth [of pd ig "h_triangles mesh" "replicate (getNTypes mesh) 0" ga k] assms
  by (simp add: local_area_def)

lemma sum_list_swap:
  "(\<Sum>x\<leftarrow>xs. \<Sum>y\<leftarrow>ys. f x y) = (\<Sum>y\<leftarrow>ys. \<Sum>x\<leftarrow>xs. (f x y :: real))"
  by (induction xs) (simp_all add: sum_list_addf)

lemma sum_list_filter_zero:
  "\<forall>x\<in>set xs. \<not> P x \<longrightarrow> f x = (0::real) \<Longrightarrow> (\<Sum>x\<leftarrow>filter P xs. f x) = (\<Sum>x\<leftarrow>xs. f x)"
  by (induction xs) simp_all

lemma sum_list_indicator:
  "(\<Sum>x\<leftarrow>xs. if P x then 1 else 0) = real (length (filter P xs))"
  by (induction xs) simp_all

lemma sum_list_all2:
  "list_all2 (\<lambda>x y. h y = f x) xs ys \<Longrightarrow> (\<Sum>y\<leftarrow>ys. h y) = (\<Sum>x\<leftarrow>xs. (f x :: real))"
  by (induction xs ys rule: list_all2_induct) simp_all

lemma MPI_SUM_nth: "k < n \<Longrightarrow> MPI_SUM n vs ! k = (\<Sum>v\<leftarrow>vs. v ! k)"
  by (simp add: MPI_SUM_def)

lemma owners_total:
  assumes "\<forall>tag\<in>set [tag_a t, tag_b t, tag_c t].
             length (filter (\<lambda>r. h_rtag (fst r) ! tag < getN (fst r)) ranks) = 1"
  shows "(\<Sum>r\<leftarrow>ranks. real (owned_vertices (fst r) t)) = 3"
proof -
  have "(\<Sum>r\<leftarrow>ranks. real (owned_vertices (fst r) t))
      = (\<Sum>r\<leftarrow>ranks. (if h_rtag (fst r) ! tag_a t < getN (fst r) then 1 else 0)
                   + (if h_rtag (fst r) ! tag_b t < getN (fst r) then 1 else 0)
                   + (if h_rtag (fst r) ! tag_c t < getN (fst r) then 1 else 0))"
    by (rule arg_cong [where f = sum_list], rule map_cong)
       (simp_all add: owned_vertices_sum [where a = 1, simplified])
  also have "\<dots> = real (length (filter (\<lambda>r. h_rtag (fst r) ! tag_a t < getN (fst r)) ranks))
                + real (length (filter (\<lambda>r. h_rtag (fst r) ! tag_b t < getN (fst r)) ranks))
                + real (length (filter (\<lambda>r. h_rtag (fst r) ! tag_c t < getN (fst r)) ranks))"
    by (simp add: sum_list_addf sum_list_indicator)
  also have "\<dots> = 3" using assms by simp
  finally show ?thesis .
qed

section \<open>Example runs\<close>

lemmas geom_defs = pos3_def clamp_cos_def edge_terms_def force_geom_def
  tri_area_def vadd_def vneg_def smul_def sdiv_def vsub_def

lemmas write_defs = apply_triangle_def update_vertex_def add_force_def add_virial_def
  virial_pair_def virial_single_def vadd_def vneg_def zero4_def

lemmas body_defs = force_body_def active_type_def area_energy_def area_prefactor_def
  triN_def force_ab_def force_ac_def vadd_def vneg_def smul_def

lemma upt_6: "[0..<6] = [0, Suc 0, 2, 3, 4, 5]"
  by (simp add: upt_rec)

lemma store_area_1: "store_area (Suc 0) g [a] = [g ! 0]"
  by (simp add: store_area_def)

lemma particle_fields [simp]:
  "getN halo_particles = 2" "getNGhosts halo_particles = 2"
  "pressure_tensor halo_particles" "\<not> getDomainDecomposition halo_particles"
  "getN owned_particles = 4" "getNGhosts owned_particles = 0"
  "pressure_tensor owned_particles" "\<not> getDomainDecomposition owned_particles"
  by (simp_all add: halo_particles_def owned_particles_def)

lemma mesh_fields [simp]:
  "h_triangles one_triangle = [tri_012]" "getNTypes one_triangle = 1"
  "getSize one_triangle = 1" "h_pts one_triangle = [1]"
  "h_triangles two_triangles = [tri_012, tri_013]" "getNTypes two_triangles = 1"
  "getSize two_triangles = 2" "h_pts two_triangles = [2]"
  "type_id tri_012 = 0" "type_id tri_013 = 0"
  by (simp_all add: one_triangle_def two_triangles_def tri_012_def tri_013_def)

lemma compute_fields [simp]:
  "m_K soft_compute = [10]" "m_A0 soft_compute = [2 / 5]" "m_area soft_compute = [0]"
  "\<not> m_ignore_type soft_compute" "virial_pitch soft_compute = 4"
  "m_force soft_compute = replicate 4 (Scalar4 9 9 9 9)"
  "m_virial soft_compute = replicate 24 9"
  "m_K collapsed_compute = [5]" "m_A0 collapsed_compute = [5]" "m_area collapsed_compute = [0]"
  "m_ignore_type collapsed_compute" "virial_pitch collapsed_compute = 4"
  "m_force collapsed_compute = replicate 4 zero4"
  "m_virial collapsed_compute = replicate 24 0"
  by (simp_all add: soft_compute_def collapsed_compute_def)

lemma example_lookup [simp]:
  "lookup_indices halo_particles tri_012 = Inr (0, Suc 0, 2)"
  "lookup_indices owned_particles tri_012 = Inr (0, Suc 0, 2)"
  "lookup_indices owned_particles tri_013 = Inr (0, Suc 0, 3)"
  by (simp_all add: lookup_indices_def halo_particles_def owned_particles_def
        tri_012_def tri_013_def)

lemma example_area [simp]:
  "tri_area halo_particles 0 (Suc 0) 2 = 1 / 2"
  "tri_area owned_particles 0 (Suc 0) 2 = 1 / 2"
  "tri_area owned_particles 0 (Suc 0) 3 = 1 / 2"
  by (simp_all add: geom_defs halo_particles_def owned_particles_def)

lemma example_geom [simp]:
  "force_geom halo_particles 0 (Suc 0) 2 = unit_geom"
  "force_geom owned_particles 0 (Suc 0) 2 = unit_geom"
  "force_geom owned_particles 0 (Suc 0) 3 = unit_geom_z"
  by (simp_all add: geom_defs halo_particles_def owned_particles_def unit_geom_def
        unit_geom_z_def)

lemma halo_precompute:
  "precomputeParameter halo_particles one_triangle soft_compute
     = Inr (soft_compute\<lparr>m_area := [1 / 2]\<rparr>)"
  by (simp add: precomputeParameter_def local_area_def area_body_def active_type_def
        add_at_def reduce_area_def store_area_1)

lemma halo_body:
  "force_body halo_particles one_triangle (soft_compute\<lparr>m_area := [1 / 2]\<rparr>) tri_012 b
     = Inr (apply_triangle halo_particles 4 (0, Suc 0, 2) unit_geom
              (Scalar3 (5 / 4) 0 0) (Scalar3 0 (5 / 4) 0) (1 / 24) b)"
  by (simp add: body_defs) (simp add: unit_geom_def)

lemma halo_run: "computeForces halo_particles one_triangle soft_compute = Inr halo_result"
  by (simp add: computeForces_def halo_precompute halo_body zero_buffers_def store_buffers_def
        halo_result_def)
     (simp add: write_defs upt_6 unit_geom_def numeral_eq_Suc)

lemma collapsed_precompute:
  "precomputeParameter owned_particles two_triangles collapsed_compute
     = Inr (collapsed_compute\<lparr>m_area := [1]\<rparr>)"
  by (simp add: precomputeParameter_def local_area_def area_body_def active_type_def
        add_at_def reduce_area_def store_area_1)

lemma collapsed_body:
  "force_body owned_particles two_triangles (collapsed_compute\<lparr>m_area := [1]\<rparr>) tri_012 b
     = Inr (apply_triangle owned_particles 4 (0, Suc 0, 2) unit_geom
              (Scalar3 (- 2) 0 0) (Scalar3 0 (- 2) 0) (4 / 3) b)"
  "force_body owned_particles two_triangles (collapsed_compute\<lparr>m_area := [1]\<rparr>) tri_013 b
     = Inr (apply_triangle owned_particles 4 (0, Suc 0, 3) unit_geom_z
              (Scalar3 (- 2) 0 0) (Scalar3 0 0 (- 2)) (4 / 3) b)"
  by (simp_all add: body_defs) (simp_all add: unit_geom_def unit_geom_z_def)

lemma collapsed_run:
  "computeForces owned_particles two_triangles collapsed_compute = Inr collapsed_result"
  by (simp add: computeForces_def collapsed_precompute collapsed_body zero_buffers_def
        store_buffers_def collapsed_result_def)
     (simp add: write_defs upt_6 unit_geom_def unit_geom_z_def numeral_eq_Suc)

lemma geom_area_unit [simp]: "geom_area unit_geom = 1 / 2" "geom_area unit_geom_z = 1 / 2"
  by (simp_all add: geom_area_def unit_geom_def unit_geom_z_def)

lemma target_fields [simp]:
  "m_K target_compute = [10]" "m_A0 target_compute = [1 / 2]" "m_area target_compute = [0]"
  "\<not> m_ignore_type target_compute" "virial_pitch target_compute = 4"
  "m_force target_compute = replicate 4 (Scalar4 9 9 9 9)"
  "m_virial target_compute = replicate 24 9"
  by (simp_all add: target_compute_def)

lemma target_precompute:
  "precomputeParameter owned_particles one_triangle target_compute
     = Inr (target_compute\<lparr>m_area := [1 / 2]\<rparr>)"
  by (simp add: precomputeParameter_def local_area_def area_body_def active_type_def
        add_at_def reduce_area_def store_area_1)

lemma target_body:
  "force_body owned_particles one_triangle (target_compute\<lparr>m_area := [1 / 2]\<rparr>) tri_012 b
     = Inr (apply_triangle owned_particles 4 (0, Suc 0, 2) unit_geom
              (Scalar3 0 0 0) (Scalar3 0 0 0) 0 b)"
  by (simp add: force_body_def active_type_def area_energy_def area_prefactor_def)

lemma target_run:
  "computeForces owned_particles one_triangle target_compute = Inr target_result"
  by (simp add: computeForces_def target_precompute target_body zero_buffers_def
        store_buffers_def target_result_def)
     (simp add: write_defs upt_6 unit_geom_def numeral_eq_Suc)

lemma tri_body:
  "tri_force_body owned_particles soft_compute tri_012 (ga, b)
     = Inr (add_at 0 (1 / 6) (add_at 0 (1 / 6) (add_at 0 (1 / 6) ga)),
            apply_triangle owned_particles 4 (0, Suc 0, 2) unit_geom
              (Scalar3 (5 / 4) 0 0) (Scalar3 0 (5 / 4) 0) (1 / 24) b)"
  by (simp add: tri_force_body_def tri_prefactor_def tri_energy_def tri_Ut_def add_if_def
        force_ab_def force_ac_def vadd_def vneg_def smul_def)
     (simp add: unit_geom_def Let_def)

lemma tri_run:
  "tri_computeForces owned_particles one_triangle soft_compute = Inr tri_result"
  by (simp add: tri_computeForces_def tri_body zero_buffers_def store_buffers_def
        tri_result_def add_at_def reduce_area_def store_area_1)
     (simp add: write_defs upt_6 unit_geom_def numeral_eq_Suc)

section \<open>setParams: theorems\<close>

lemma warn_append:
  "warn b2 m2 (warn b1 m1 ws) = ws @ (if b1 then [m1] else []) @ (if b2 then [m2] else [])"
  by (simp add: warn_def)

text \<open>C9. In the whole-mesh variant with single-type collapse active, \<open>setParams\<close> for a
  type other than 0 returns the compute unchanged: no parameter is stored and no
  warning is logged, whatever K and A0 are.\<close>

theorem setParams_collapsed_noop:
  assumes "m_ignore_type s" and "type \<noteq> 0"
  shows "setParams type K A0 s = s"
  using assms by (simp add: setParams_def)

theorem setParams_collapsed_noop_witness:
  "m_ignore_type collapsed_compute \<and> (1::nat) \<noteq> 0
   \<and> setParams 1 (- 1) 0 collapsed_compute = collapsed_compute"
proof -
  have a: "m_ignore_type collapsed_compute" by (simp add: collapsed_compute_def)
  have b: "(1::nat) \<noteq> 0" by simp
  show ?thesis using a b setParams_collapsed_noop [OF a b, of "- 1" 0] by simp
qed

text \<open>C7, as stated, fails in the whole-mesh variant with single-type collapse: for
  type 1 and K = -1 nothing is stored and no warning is logged.\<close>

theorem setParams_stores_counterexample:
  "m_K (setParams 1 (- 1) 0 collapsed_compute) = [5]
   \<and> m_A0 (setParams 1 (- 1) 0 collapsed_compute) = [5]
   \<and> warnings (setParams 1 (- 1) 0 collapsed_compute) = []"
  by (simp add: setParams_def collapsed_compute_def)

text \<open>C7, amended. \<open>setParams\<close> is a total function: the source has no \<^verbatim>\<open>throw\<close> and
  the model no error branch. For every type within the parameter arrays and all K and
  A0, also non-positive ones, the per-triangle variant stores K and A0 at that type and
  logs one warning for \<open>K \<le> 0\<close> and one for \<open>A0 \<le> 0\<close>; the whole-mesh variant does the same
  when types are distinguished or the type is 0. (With single-type collapse and another
  type it does nothing.)\<close>

theorem setParams_stores:
  assumes "type < length (m_K s)" and "type < length (m_A0 s)"
  shows "m_K (tri_setParams type K A0 s) ! type = K
       \<and> m_A0 (tri_setParams type K A0 s) ! type = A0
       \<and> warnings (tri_setParams type K A0 s) =
           warnings s
             @ (if K \<le> 0 then [''TriangleAreaConservation: specified K <= 0''] else [])
             @ (if A0 \<le> 0 then [''TriangleAreaConservation: specified A0 <= 0''] else [])
       \<and> (\<not> m_ignore_type s \<or> type = 0 \<longrightarrow>
            m_K (setParams type K A0 s) ! type = K
          \<and> m_A0 (setParams type K A0 s) ! type = A0
          \<and> warnings (setParams type K A0 s) =
              warnings s @ (if K \<le> 0 then [''area: specified K <= 0''] else [])
                         @ (if A0 \<le> 0 then [''area: specified A0 <= 0''] else []))"
  using assms by (auto simp add: setParams_def tri_setParams_def warn_def)

theorem setParams_stores_witness:
  "(1::nat) < length (m_K typed_compute) \<and> 1 < length (m_A0 typed_compute)
   \<and> m_K (tri_setParams 1 (- 2) 0 typed_compute) ! 1 = - 2
   \<and> m_A0 (tri_setParams 1 (- 2) 0 typed_compute) ! 1 = 0
   \<and> warnings (tri_setParams 1 (- 2) 0 typed_compute) =
        [''TriangleAreaConservation: specified K <= 0'',
         ''TriangleAreaConservation: specified A0 <= 0'']
   \<and> m_K (setParams 1 (- 2) 0 typed_compute) ! 1 = - 2
   \<and> m_A0 (setParams 1 (- 2) 0 typed_compute) ! 1 = 0
   \<and> warnings (setParams 1 (- 2) 0 typed_compute) =
        [''area: specified K <= 0'', ''area: specified A0 <= 0'']"
proof -
  have a: "(1::nat) < length (m_K typed_compute)" by (simp add: typed_compute_def)
  have b: "(1::nat) < length (m_A0 typed_compute)" by (simp add: typed_compute_def)
  have c: "\<not> m_ignore_type typed_compute" "warnings typed_compute = []"
    by (simp_all add: typed_compute_def)
  show ?thesis using a b c setParams_stores [OF a b, of "- 2" 0] by simp
qed

section \<open>The accelerator shell: theorems\<close>

lemma and_one_bit0: "(w :: 32 word) AND 1 \<noteq> 0 \<longleftrightarrow> bit w 0"
  by (simp add: and_one_eq bit_0 mod_2_eq_odd)

text \<open>C6. With error checking disabled the call returns normally whatever the kernel
  left in the flag word, and the flag is not read on the host. With error checking
  enabled (and \<^verbatim>\<open>CHECK_CUDA_ERROR\<close> passing) the flag is read once, and the call raises
  the runtime error exactly when bit 0 of the flag word is set; otherwise it returns
  normally.\<close>

theorem gpu_flag_checked_only:
  "gpu_computeForces False cc launch d
     = Inr ((launch (d\<lparr>tuner_running := True\<rparr>))\<lparr>tuner_running := False\<rparr>)
   \<and> (gpu_computeForces True None launch d = Inl triangle_error
        \<longleftrightarrow> bit (d_flags (launch (d\<lparr>tuner_running := True\<rparr>))) 0)
   \<and> (\<not> bit (d_flags (launch (d\<lparr>tuner_running := True\<rparr>))) 0 \<longrightarrow>
        gpu_computeForces True None launch d
          = Inr ((launch (d\<lparr>tuner_running := True\<rparr>))
                   \<lparr>host_flag_reads := host_flag_reads (launch (d\<lparr>tuner_running := True\<rparr>)) + 1,
                    tuner_running := False\<rparr>))"
  by (simp add: gpu_computeForces_def Let_def and_one_bit0)

theorem gpu_flag_checked_only_witness:
  "gpu_computeForces False None faulty_launch idle_device
     = Inr (idle_device\<lparr>d_flags := 1\<rparr>)
   \<and> gpu_computeForces True None faulty_launch idle_device = Inl triangle_error
   \<and> \<not> bit (d_flags (id (idle_device\<lparr>tuner_running := True\<rparr>))) 0
   \<and> gpu_computeForces True None id idle_device
       = Inr (idle_device\<lparr>host_flag_reads := 1\<rparr>)"
  using gpu_flag_checked_only [of None faulty_launch idle_device]
        gpu_flag_checked_only [of None id idle_device]
  by (simp add: faulty_launch_def idle_device_def)

section \<open>The force loops: theorems\<close>

text \<open>C5. After a call of \<open>computeForces\<close> that returns, in either variant, every
  force/energy slot with a local index at or beyond the owned count is zero, and so
  is every virial slot \<open>j * pitch + p\<close> of such an index \<open>p\<close> below the pitch: the
  buffers are zeroed first and every write is guarded by \<open>idx < getN\<close>.\<close>

theorem ghost_slots_zero:
  assumes "computeForces pd mesh s = Inr s' \<or> tri_computeForces pd mesh s = Inr s'"
  shows "(\<forall>p. getN pd \<le> p \<and> p < length (m_force s') \<longrightarrow> m_force s' ! p = zero4)
       \<and> (\<forall>j p. getN pd \<le> p \<and> p < virial_pitch s'
                  \<and> j * virial_pitch s' + p < length (m_virial s')
                \<longrightarrow> m_virial s' ! (j * virial_pitch s' + p) = 0)"
  using assms
proof
  assume "computeForces pd mesh s = Inr s'"
  then obtain s1 b where pre: "precomputeParameter pd mesh s = Inr s1"
    and run: "for_each (force_body pd mesh s1) (h_triangles mesh) (zero_buffers s1) = Inr b"
    and s': "s' = store_buffers s1 b"
    using computeForces_Inr by blast
  note z = ghosts_kept_zero [OF force_loop_frame [OF run]]
  show ?thesis
    using z by (simp add: s' store_buffers_def)
next
  assume "tri_computeForces pd mesh s = Inr s'"
  then obtain ga b where
    run: "for_each (tri_force_body pd s) (h_triangles mesh)
            (replicate (getNTypes mesh) 0, zero_buffers s) = Inr (ga, b)"
    and s': "s' = (store_buffers s b)
                 \<lparr>m_area := store_area (getNTypes mesh) (reduce_area pd ga) (m_area s)\<rparr>"
    using tri_computeForces_Inr by blast
  from tri_force_loop_frame [OF run]
  have "ghosts_kept (getN pd) (virial_pitch s) (zero_buffers s) b" by simp
  note z = ghosts_kept_zero [OF this]
  show ?thesis
    using z by (simp add: s' store_buffers_def)
qed

theorem ghost_slots_zero_witness:
  "computeForces halo_particles one_triangle soft_compute = Inr halo_result
   \<and> getN halo_particles = 2
   \<and> m_force halo_result ! 2 = zero4 \<and> m_force halo_result ! 3 = zero4
   \<and> m_virial halo_result ! (0 * virial_pitch halo_result + 2) = 0
   \<and> m_virial halo_result ! (3 * virial_pitch halo_result + 3) = 0"
proof -
  have h: "computeForces halo_particles one_triangle soft_compute = Inr halo_result
      \<or> tri_computeForces halo_particles one_triangle soft_compute = Inr halo_result"
    by (simp add: halo_run)
  from ghost_slots_zero [OF h]
  have f: "\<forall>p. getN halo_particles \<le> p \<and> p < length (m_force halo_result)
             \<longrightarrow> m_force halo_result ! p = zero4"
    and v: "\<forall>j p. getN halo_particles \<le> p \<and> p < virial_pitch halo_result
               \<and> j * virial_pitch halo_result + p < length (m_virial halo_result)
             \<longrightarrow> m_virial halo_result ! (j * virial_pitch halo_result + p) = 0"
    by blast+
  have "m_force halo_result ! 2 = zero4"
    by (rule f [rule_format]) (simp add: halo_result_def)
  moreover have "m_force halo_result ! 3 = zero4"
    by (rule f [rule_format]) (simp add: halo_result_def)
  moreover have "m_virial halo_result ! (0 * virial_pitch halo_result + 2) = 0"
    by (rule v [rule_format]) (simp add: halo_result_def)
  moreover have "m_virial halo_result ! (3 * virial_pitch halo_result + 3) = 0"
    by (rule v [rule_format]) (simp add: halo_result_def)
  ultimately show ?thesis by (simp add: halo_run)
qed

text \<open>C1, as stated, fails with single-type collapse: in a mesh of two triangles with
  aggregate area 1, \<open>K = 5\<close> and \<open>A0 = 5\<close>, particle 2 is a vertex of the first triangle
  only and receives the energy 4/3, where the claim's formula with \<open>N_active = 1\<close>
  gives 8/3.\<close>

theorem whole_mesh_vertex_energy_counterexample:
  "computeForces owned_particles two_triangles collapsed_compute = Inr collapsed_result
   \<and> m_ignore_type collapsed_compute
   \<and> owned_hits owned_particles tri_012 2 = 1
   \<and> owned_hits owned_particles tri_013 2 = 0
   \<and> fw (m_force collapsed_result ! 2) = 4 / 3
   \<and> m_K collapsed_compute ! 0
        * (m_area collapsed_result ! 0 - m_A0 collapsed_compute ! 0)\<^sup>2
        / (6 * m_A0 collapsed_compute ! 0 * 1) = 8 / 3"
  by (simp add: collapsed_run)
     (simp add: collapsed_result_def owned_hits_def owned_particles_def tri_012_def
        tri_013_def)

text \<open>C1, amended. In the whole-mesh variant the energy that \<open>computeForces\<close> leaves in
  slot \<open>p\<close> is the sum, over the triangles, of one contribution
  \<open>K[t] * (area[t] - A0[t])\<^sup>2 / (6 * A0[t] * N_active)\<close> for every owned vertex of the
  triangle that is particle \<open>p\<close>; \<open>t\<close> is the triangle's type, or 0 with single-type
  collapse, \<open>area\<close> is the aggregate area of this call, and \<open>N_active\<close> is
  \<^verbatim>\<open>h_pts.data[t]\<close> when types are distinguished and \<^verbatim>\<open>m_mesh_data->getSize()\<close> with
  single-type collapse.\<close>

theorem whole_mesh_vertex_energy:
  assumes "computeForces pd mesh s = Inr s'" and "p < length (m_force s)"
  shows "fw (m_force s' ! p) =
           (\<Sum>t\<leftarrow>h_triangles mesh.
              let ty = active_type (m_ignore_type s) t;
                  N_active = (if m_ignore_type s then getSize mesh else h_pts mesh ! ty)
              in real (owned_hits pd t p)
                   * (m_K s ! ty * (m_area s' ! ty - m_A0 s ! ty)\<^sup>2
                        / (6 * m_A0 s ! ty * real N_active)))"
proof -
  from assms(1) obtain s1 b where pre: "precomputeParameter pd mesh s = Inr s1"
    and run: "for_each (force_body pd mesh s1) (h_triangles mesh) (zero_buffers s1) = Inr b"
    and s': "s' = store_buffers s1 b"
    using computeForces_Inr by blast
  note fields = precomputeParameter_fields [OF pre]
  have p: "p < length (fst (zero_buffers s1))"
    using assms(2) by (simp add: zero_buffers_def fields)
  have "fw (fst (zero_buffers s1) ! p) = 0"
    using assms(2) by (simp add: zero_buffers_def fields zero4_def)
  with force_loop_energy [OF run p]
  have "fw (fst b ! p) =
          (\<Sum>t\<leftarrow>h_triangles mesh. real (owned_hits pd t p)
                       * area_energy mesh s1 (active_type (m_ignore_type s1) t))"
    by simp
  then show ?thesis
    by (simp add: s' store_buffers_def area_energy_def triN_def fields Let_def
          power2_eq_square mult.assoc)
qed


theorem whole_mesh_vertex_energy_witness:
  "computeForces owned_particles two_triangles collapsed_compute = Inr collapsed_result
   \<and> 2 < length (m_force collapsed_compute)
   \<and> fw (m_force collapsed_result ! 2) =
        (\<Sum>t\<leftarrow>h_triangles two_triangles.
           let ty = active_type (m_ignore_type collapsed_compute) t;
               N_active = (if m_ignore_type collapsed_compute then getSize two_triangles
                           else h_pts two_triangles ! ty)
           in real (owned_hits owned_particles t 2)
                * (m_K collapsed_compute ! ty
                     * (m_area collapsed_result ! ty - m_A0 collapsed_compute ! ty)\<^sup>2
                     / (6 * m_A0 collapsed_compute ! ty * real N_active)))"
proof -
  have len: "2 < length (m_force collapsed_compute)" by simp
  from whole_mesh_vertex_energy [OF collapsed_run len] collapsed_run len
  show ?thesis by blast
qed

text \<open>C10. The per-triangle \<open>computeForces\<close> also recomputes the per-type area: without
  domain decomposition, the area it stores for a type is the sum, over the triangles
  of that type, of one third of the triangle's area for every owned vertex; when all
  vertices of all triangles are owned this is the sum of the areas of the triangles of
  that type.\<close>

theorem per_triangle_area_side_effect:
  assumes "tri_computeForces pd mesh s = Inr s'"
    and "\<not> getDomainDecomposition pd"
    and "ty < getNTypes mesh" and "ty < length (m_area s)"
  shows "getArea s' ty =
           (\<Sum>t\<leftarrow>filter (\<lambda>t. type_id t = ty) (h_triangles mesh).
              real (owned_vertices pd t) * (force_area pd t / 3))
       \<and> ((\<forall>t\<in>set (h_triangles mesh). owned_vertices pd t = 3) \<longrightarrow>
            getArea s' ty
              = (\<Sum>t\<leftarrow>filter (\<lambda>t. type_id t = ty) (h_triangles mesh). force_area pd t))"
proof -
  from assms(1) obtain ga b where
    run: "for_each (tri_force_body pd s) (h_triangles mesh)
            (replicate (getNTypes mesh) 0, zero_buffers s) = Inr (ga, b)"
    and s': "s' = (store_buffers s b)
                 \<lparr>m_area := store_area (getNTypes mesh) (reduce_area pd ga) (m_area s)\<rparr>"
    using tri_computeForces_Inr by blast
  have k: "ty < length (fst (replicate (getNTypes mesh) (0::real), zero_buffers s))"
    using assms(3) by simp
  from tri_force_loop_area [OF run k]
  have ga: "ga ! ty = (\<Sum>t\<leftarrow>h_triangles mesh. if type_id t = ty
                       then real (owned_vertices pd t) * (force_area pd t / 3) else 0)"
    using assms(3) by simp
  have area: "getArea s' ty = ga ! ty"
    using assms(2-4) by (simp add: getArea_def s' store_area_nth reduce_area_def)
  have general: "getArea s' ty =
           (\<Sum>t\<leftarrow>filter (\<lambda>t. type_id t = ty) (h_triangles mesh).
              real (owned_vertices pd t) * (force_area pd t / 3))"
    unfolding area ga by (rule sum_list_if_filter)
  moreover have "getArea s' ty
              = (\<Sum>t\<leftarrow>filter (\<lambda>t. type_id t = ty) (h_triangles mesh). force_area pd t)"
    if all: "\<forall>t\<in>set (h_triangles mesh). owned_vertices pd t = 3"
  proof -
    have "(\<Sum>t\<leftarrow>filter (\<lambda>t. type_id t = ty) (h_triangles mesh).
              real (owned_vertices pd t) * (force_area pd t / 3))
        = (\<Sum>t\<leftarrow>filter (\<lambda>t. type_id t = ty) (h_triangles mesh). force_area pd t)"
      by (rule arg_cong [where f = sum_list], rule map_cong) (use all in auto)
    with general show ?thesis by simp
  qed
  ultimately show ?thesis by blast
qed

theorem per_triangle_area_side_effect_witness:
  "tri_computeForces owned_particles one_triangle soft_compute = Inr tri_result
   \<and> \<not> getDomainDecomposition owned_particles
   \<and> 0 < getNTypes one_triangle \<and> 0 < length (m_area soft_compute)
   \<and> owned_vertices owned_particles tri_012 = 3
   \<and> force_area owned_particles tri_012 = 1 / 2
   \<and> getArea tri_result 0 = 1 / 2"
proof -
  have dd: "\<not> getDomainDecomposition owned_particles" by simp
  have ty: "0 < getNTypes one_triangle" "0 < length (m_area soft_compute)" by simp_all
  have own: "owned_vertices owned_particles tri_012 = 3"
    by (simp add: owned_vertices_def owned_particles_def tri_012_def)
  have area: "force_area owned_particles tri_012 = 1 / 2"
    using lookup_indices_Inr [OF example_lookup(2), symmetric] by (simp add: force_area_def)
  from per_triangle_area_side_effect [OF tri_run dd ty] own area
  have "getArea tri_result 0 = 1 / 2" by simp
  then show ?thesis using tri_run dd ty own area by simp
qed

section \<open>Whole runs\<close>

subsection \<open>Runs that return\<close>

lemma asserts_pass_iff: "asserts_pass pd t \<longleftrightarrow> (\<exists>idx. lookup_indices pd t = Inr idx)"
  by (auto simp add: asserts_pass_def vertex_indices_def lookup_indices_def Let_def)

lemma asserts_pass_lookup:
  "asserts_pass pd t \<Longrightarrow>
     lookup_indices pd t = Inr (h_rtag pd ! tag_a t, h_rtag pd ! tag_b t, h_rtag pd ! tag_c t)"
  by (simp add: asserts_pass_def vertex_indices_def)

lemma lookup_asserts_pass: "lookup_indices pd t = Inr idx \<Longrightarrow> asserts_pass pd t"
  using asserts_pass_iff by blast

lemma force_body_returns:
  "asserts_pass pd t \<Longrightarrow> \<exists>b'. force_body pd mesh s t b = Inr b'"
  using force_body_eq [OF asserts_pass_lookup] by blast

lemma tri_force_body_returns:
  assumes "asserts_pass pd t"
  shows "\<exists>st'. tri_force_body pd s t st = Inr st'"
  using tri_force_body_eq [OF asserts_pass_lookup [OF assms], of s "fst st" "snd st"] by auto

lemma area_body_returns:
  "asserts_pass pd t \<Longrightarrow> \<exists>ga'. area_body pd ig t ga = Inr ga'"
  by (simp add: area_body_def asserts_pass_lookup Let_def)

lemma local_area_returns:
  assumes "\<forall>u\<in>set (h_triangles mesh). asserts_pass pd u"
  shows "\<exists>v. local_area pd mesh ig = Inr v"
proof -
  have "\<forall>u\<in>set (h_triangles mesh). \<forall>ga. \<exists>ga'. area_body pd ig u ga = Inr ga'"
    using assms area_body_returns by blast
  from for_each_returns [OF this] show ?thesis
    unfolding local_area_def by blast
qed

lemma precomputeParameter_returns:
  assumes "\<forall>u\<in>set (h_triangles mesh). asserts_pass pd u"
  shows "\<exists>s1. precomputeParameter pd mesh s = Inr s1"
proof -
  have "\<forall>u\<in>set (h_triangles mesh). \<forall>ga. \<exists>ga'. area_body pd (m_ignore_type s) u ga = Inr ga'"
    using assms area_body_returns by blast
  from for_each_returns [OF this]
  obtain ga where "local_area pd mesh (m_ignore_type s) = Inr ga"
    unfolding local_area_def by blast
  then show ?thesis by (simp add: precomputeParameter_def)
qed

lemma computeForces_returns:
  assumes "\<forall>u\<in>set (h_triangles mesh). asserts_pass pd u"
  shows "\<exists>s'. computeForces pd mesh s = Inr s'"
proof -
  obtain s1 where pre: "precomputeParameter pd mesh s = Inr s1"
    using precomputeParameter_returns [OF assms] by blast
  have "\<forall>u\<in>set (h_triangles mesh). \<forall>b. \<exists>b'. force_body pd mesh s1 u b = Inr b'"
    using assms force_body_returns by blast
  from for_each_returns [OF this]
  obtain b where "for_each (force_body pd mesh s1) (h_triangles mesh) (zero_buffers s1) = Inr b"
    by blast
  then show ?thesis by (simp add: computeForces_def pre)
qed

lemma tri_computeForces_returns:
  assumes "\<forall>u\<in>set (h_triangles mesh). asserts_pass pd u"
  shows "\<exists>s'. tri_computeForces pd mesh s = Inr s'"
proof -
  have "\<forall>u\<in>set (h_triangles mesh). \<forall>st. \<exists>st'. tri_force_body pd s u st = Inr st'"
    using assms tri_force_body_returns by blast
  from for_each_returns [OF this]
  obtain st where "for_each (tri_force_body pd s) (h_triangles mesh)
                     (replicate (getNTypes mesh) 0, zero_buffers s) = Inr st"
    by blast
  then show ?thesis by (cases st) (simp add: tri_computeForces_def)
qed

subsection \<open>The energy of a slot\<close>

lemma tri_force_body_energy:
  assumes "tri_force_body pd s t st = Inr st'" and "p < length (fst (snd st))"
  shows "length (fst (snd st')) = length (fst (snd st))"
    and "fw (fst (snd st') ! p) = fw (fst (snd st) ! p)
           + real (owned_hits pd t p) * tri_energy s (type_id t) (force_geom_of pd t)"
proof -
  obtain ia ib ic where look: "lookup_indices pd t = Inr (ia, ib, ic)"
    using assms(1) by (cases "lookup_indices pd t") (auto simp add: tri_force_body_def)
  note idx = lookup_indices_Inr [OF look]
  from tri_force_body_eq [OF look, of s "fst st" "snd st"] assms(1)
  have st': "snd st' = apply_triangle pd (virial_pitch s) (ia, ib, ic) (force_geom pd ia ib ic)
            (force_ab (tri_prefactor s (type_id t) (force_geom pd ia ib ic)) (force_geom pd ia ib ic))
            (force_ac (tri_prefactor s (type_id t) (force_geom pd ia ib ic)) (force_geom pd ia ib ic))
            (tri_energy s (type_id t) (force_geom pd ia ib ic)) (snd st)"
    by auto
  show "length (fst (snd st')) = length (fst (snd st))" by (simp add: st')
  show "fw (fst (snd st') ! p) = fw (fst (snd st) ! p)
           + real (owned_hits pd t p) * tri_energy s (type_id t) (force_geom_of pd t)"
    unfolding st'
    by (simp add: apply_triangle_slot(4) [OF assms(2)] owned_hits_hit [OF look]
          force_geom_of_def idx [symmetric])
qed

lemma tri_force_loop_energy:
  assumes "for_each (tri_force_body pd s) ts st = Inr st'" and "p < length (fst (snd st))"
  shows "fw (fst (snd st') ! p) = fw (fst (snd st) ! p)
           + (\<Sum>t\<leftarrow>ts. real (owned_hits pd t p) * tri_energy s (type_id t) (force_geom_of pd t))"
  using assms
proof (induction ts arbitrary: st)
  case Nil
  then show ?case by simp
next
  case (Cons t ts)
  show ?case
  proof (cases "tri_force_body pd s t st")
    case (Inl e)
    with Cons.prems(1) show ?thesis by simp
  next
    case (Inr st1)
    with Cons.prems(1) have run: "for_each (tri_force_body pd s) ts st1 = Inr st'" by simp
    note step = tri_force_body_energy [OF Inr Cons.prems(2)]
    have len: "p < length (fst (snd st1))" using step(1) Cons.prems(2) by simp
    show ?thesis using Cons.IH [OF run len] step(2) by simp
  qed
qed

lemma sum_upt_hit:
  "(\<Sum>p\<leftarrow>[0..<L]. if i = p \<and> p < n then (1::real) else 0) = (if i < n \<and> i < L then 1 else 0)"
  by (induction L) auto

lemma owned_hits_sum:
  "real (owned_hits pd t p) =
     (if h_rtag pd ! tag_a t = p \<and> p < getN pd then 1 else 0)
   + (if h_rtag pd ! tag_b t = p \<and> p < getN pd then 1 else 0)
   + (if h_rtag pd ! tag_c t = p \<and> p < getN pd then 1 else 0)"
  by (simp add: owned_hits_def)

lemma owned_hits_total:
  assumes "getN pd \<le> L"
  shows "(\<Sum>p\<leftarrow>[0..<L]. real (owned_hits pd t p)) = real (owned_vertices pd t)"
proof -
  have one: "(if i < getN pd \<and> i < L then (1::real) else 0) = (if i < getN pd then 1 else 0)" for i
    using assms by auto
  show ?thesis
    unfolding owned_hits_sum
    by (simp add: sum_list_addf sum_upt_hit one owned_vertices_sum [where a = 1, simplified])
qed

lemma store_buffers_fields [simp]:
  "m_K (store_buffers s b) = m_K s" "m_A0 (store_buffers s b) = m_A0 s"
  "m_area (store_buffers s b) = m_area s" "m_ignore_type (store_buffers s b) = m_ignore_type s"
  "m_force (store_buffers s b) = fst b" "m_virial (store_buffers s b) = snd b"
  "virial_pitch (store_buffers s b) = virial_pitch s"
  by (simp_all add: store_buffers_def)

lemma area_contribution_energy:
  "area_contribution pd mesh s t p
     = real (owned_hits pd t p) * area_energy mesh s (active_type (m_ignore_type s) t)"
  by (simp add: area_contribution_def area_energy_formula Let_def)

lemma tri_contribution_energy:
  "tri_contribution pd s t p
     = real (owned_hits pd t p) * tri_energy s (type_id t) (force_geom_of pd t)"
  by (simp add: tri_contribution_def tri_energy_area)

lemma computeForces_slot_energy:
  assumes "computeForces pd mesh s = Inr sw" and "p < length (m_force s)"
  shows "fw (m_force sw ! p) = (\<Sum>u\<leftarrow>h_triangles mesh. area_contribution pd mesh sw u p)"
proof -
  from assms(1) obtain s1 b where pre: "precomputeParameter pd mesh s = Inr s1"
    and run: "for_each (force_body pd mesh s1) (h_triangles mesh) (zero_buffers s1) = Inr b"
    and sw: "sw = store_buffers s1 b"
    using computeForces_Inr by blast
  note fields = precomputeParameter_fields [OF pre]
  have p: "p < length (fst (zero_buffers s1))"
    using assms(2) by (simp add: zero_buffers_def fields)
  have "fw (fst (zero_buffers s1) ! p) = 0"
    using assms(2) by (simp add: zero_buffers_def fields zero4_def)
  with force_loop_energy [OF run p]
  have "fw (fst b ! p) =
          (\<Sum>t\<leftarrow>h_triangles mesh. real (owned_hits pd t p)
                       * area_energy mesh s1 (active_type (m_ignore_type s1) t))"
    by simp
  moreover have "area_energy mesh sw ty = area_energy mesh s1 ty" for ty
    by (simp add: sw area_energy_def triN_def)
  ultimately show ?thesis
    by (simp add: area_contribution_energy) (simp add: sw)
qed

lemma tri_computeForces_slot_energy:
  assumes "tri_computeForces pd mesh s = Inr st" and "p < length (m_force s)"
  shows "fw (m_force st ! p) = (\<Sum>u\<leftarrow>h_triangles mesh. tri_contribution pd s u p)"
proof -
  from assms(1) obtain ga b where
    run: "for_each (tri_force_body pd s) (h_triangles mesh)
            (replicate (getNTypes mesh) 0, zero_buffers s) = Inr (ga, b)"
    and st: "st = (store_buffers s b)
                 \<lparr>m_area := store_area (getNTypes mesh) (reduce_area pd ga) (m_area s)\<rparr>"
    using tri_computeForces_Inr by blast
  have p: "p < length (fst (snd (replicate (getNTypes mesh) (0::real), zero_buffers s)))"
    using assms(2) by (simp add: zero_buffers_def)
  have "fw (fst (zero_buffers s) ! p) = 0"
    using assms(2) by (simp add: zero_buffers_def zero4_def)
  with tri_force_loop_energy [OF run p]
  show ?thesis by (simp add: tri_contribution_energy st)
qed

lemma three_vertices_tri:
  assumes "getN pd \<le> L" and "owned_vertices pd u = 3"
  shows "(\<Sum>p\<leftarrow>[0..<L]. tri_contribution pd s u p)
           = m_K s ! type_id u / (2 * m_A0 s ! type_id u)
               * (geom_area (force_geom_of pd u) - m_A0 s ! type_id u)\<^sup>2"
proof -
  have "(\<Sum>p\<leftarrow>[0..<L]. tri_contribution pd s u p)
      = (\<Sum>p\<leftarrow>[0..<L]. real (owned_hits pd u p))
          * (m_K s ! type_id u / (6 * m_A0 s ! type_id u)
               * (geom_area (force_geom_of pd u) - m_A0 s ! type_id u)\<^sup>2)"
    unfolding tri_contribution_def by (rule sum_list_mult_const)
  then show ?thesis
    by (simp add: owned_hits_total [OF assms(1)] assms(2))
qed

lemma three_vertices_area:
  assumes "getN pd \<le> L" and "owned_vertices pd u = 3"
  shows "(\<Sum>p\<leftarrow>[0..<L]. area_contribution pd mesh s u p)
           = (let ty = active_type (m_ignore_type s) u
              in m_K s ! ty * (m_area s ! ty - m_A0 s ! ty)\<^sup>2
                   / (2 * m_A0 s ! ty * real (triN mesh (m_ignore_type s) ty)))"
proof -
  have "(\<Sum>p\<leftarrow>[0..<L]. area_contribution pd mesh s u p)
      = (\<Sum>p\<leftarrow>[0..<L]. real (owned_hits pd u p))
          * area_energy mesh s (active_type (m_ignore_type s) u)"
    unfolding area_contribution_energy by (rule sum_list_mult_const)
  then show ?thesis
    using area_energy_total [of mesh s "active_type (m_ignore_type s) u"]
    by (simp add: owned_hits_total [OF assms(1)] assms(2) Let_def)
qed

lemma owned_hits_vertex:
  assumes "owned_vertices pd u = 3"
    and "distinct [h_rtag pd ! tag_a u, h_rtag pd ! tag_b u, h_rtag pd ! tag_c u]"
    and "p \<in> {h_rtag pd ! tag_a u, h_rtag pd ! tag_b u, h_rtag pd ! tag_c u}"
  shows "owned_hits pd u p = 1"
  using assms by (auto simp add: owned_hits_def owned_vertices_def split: if_splits)

subsection \<open>A triangle that shares no vertex\<close>

lemma for_each_append:
  "for_each body (xs @ ys) s =
     (case for_each body xs s of Inl e \<Rightarrow> Inl e | Inr s1 \<Rightarrow> for_each body ys s1)"
  by (induction xs arbitrary: s) (simp_all split: sum.splits)

lemma for_each_split:
  assumes "for_each body (pre @ t # post) s = Inr s'"
  shows "\<exists>s1 s2. for_each body pre s = Inr s1 \<and> body t s1 = Inr s2
                 \<and> for_each body post s2 = Inr s'"
  using assms by (auto simp add: for_each_append split: sum.splits)

lemma apply_triangle_untouched:
  assumes "p < length (fst b)" and "p \<noteq> ia" and "p \<noteq> ib" and "p \<noteq> ic"
  shows "fst (apply_triangle pd pitch (ia, ib, ic) g Fab Fac e b) ! p = fst b ! p"
  using assms(2-4)
  by (intro Scalar4.expand) (simp add: apply_triangle_slot [OF assms(1)] hit_def)

lemma force_body_untouched:
  assumes "force_body pd mesh s u b = Inr b'" and "p < length (fst b)"
    and "p \<notin> {h_rtag pd ! tag_a u, h_rtag pd ! tag_b u, h_rtag pd ! tag_c u}"
  shows "length (fst b') = length (fst b) \<and> fst b' ! p = fst b ! p"
proof -
  obtain ia ib ic where look: "lookup_indices pd u = Inr (ia, ib, ic)"
    using assms(1) by (cases "lookup_indices pd u") (auto simp add: force_body_def)
  note idx = lookup_indices_Inr [OF look]
  from force_body_eq [OF look, of mesh s b] assms(1)
  have b': "b' = apply_triangle pd (virial_pitch s) (ia, ib, ic) (force_geom pd ia ib ic)
            (force_ab (area_prefactor s (active_type (m_ignore_type s) u)) (force_geom pd ia ib ic))
            (force_ac (area_prefactor s (active_type (m_ignore_type s) u)) (force_geom pd ia ib ic))
            (area_energy mesh s (active_type (m_ignore_type s) u)) b"
    by simp
  show ?thesis
    unfolding b' using assms(3) by (simp add: apply_triangle_untouched [OF assms(2)] idx)
qed

lemma tri_force_body_untouched:
  assumes "tri_force_body pd s u st = Inr st'" and "p < length (fst (snd st))"
    and "p \<notin> {h_rtag pd ! tag_a u, h_rtag pd ! tag_b u, h_rtag pd ! tag_c u}"
  shows "length (fst (snd st')) = length (fst (snd st)) \<and> fst (snd st') ! p = fst (snd st) ! p"
proof -
  obtain ia ib ic where look: "lookup_indices pd u = Inr (ia, ib, ic)"
    using assms(1) by (cases "lookup_indices pd u") (auto simp add: tri_force_body_def)
  note idx = lookup_indices_Inr [OF look]
  from tri_force_body_eq [OF look, of s "fst st" "snd st"] assms(1)
  have st': "snd st' = apply_triangle pd (virial_pitch s) (ia, ib, ic) (force_geom pd ia ib ic)
            (force_ab (tri_prefactor s (type_id u) (force_geom pd ia ib ic)) (force_geom pd ia ib ic))
            (force_ac (tri_prefactor s (type_id u) (force_geom pd ia ib ic)) (force_geom pd ia ib ic))
            (tri_energy s (type_id u) (force_geom pd ia ib ic)) (snd st)"
    by auto
  show ?thesis
    unfolding st' using assms(3) by (simp add: apply_triangle_untouched [OF assms(2)] idx)
qed

lemma force_loop_untouched:
  assumes "for_each (force_body pd mesh s) ts b = Inr b'" and "p < length (fst b)"
    and "\<forall>u\<in>set ts. p \<notin> {h_rtag pd ! tag_a u, h_rtag pd ! tag_b u, h_rtag pd ! tag_c u}"
  shows "length (fst b') = length (fst b) \<and> fst b' ! p = fst b ! p"
proof (rule for_each_invariant [OF assms(1),
         where P = "\<lambda>c. length (fst c) = length (fst b) \<and> fst c ! p = fst b ! p"])
  show "length (fst b) = length (fst b) \<and> fst b ! p = fst b ! p" by simp
  show "\<forall>t\<in>set ts. \<forall>c c'. length (fst c) = length (fst b) \<and> fst c ! p = fst b ! p
          \<longrightarrow> force_body pd mesh s t c = Inr c'
          \<longrightarrow> length (fst c') = length (fst b) \<and> fst c' ! p = fst b ! p"
  proof (intro ballI allI impI)
    fix t c c'
    assume t: "t \<in> set ts"
      and c: "length (fst c) = length (fst b) \<and> fst c ! p = fst b ! p"
      and step: "force_body pd mesh s t c = Inr c'"
    have p: "p < length (fst c)" using c assms(2) by simp
    have "p \<notin> {h_rtag pd ! tag_a t, h_rtag pd ! tag_b t, h_rtag pd ! tag_c t}"
      using assms(3) t by blast
    from force_body_untouched [OF step p this] c
    show "length (fst c') = length (fst b) \<and> fst c' ! p = fst b ! p" by simp
  qed
qed

lemma tri_force_loop_untouched:
  assumes "for_each (tri_force_body pd s) ts st = Inr st'" and "p < length (fst (snd st))"
    and "\<forall>u\<in>set ts. p \<notin> {h_rtag pd ! tag_a u, h_rtag pd ! tag_b u, h_rtag pd ! tag_c u}"
  shows "length (fst (snd st')) = length (fst (snd st)) \<and> fst (snd st') ! p = fst (snd st) ! p"
proof (rule for_each_invariant [OF assms(1),
         where P = "\<lambda>c. length (fst (snd c)) = length (fst (snd st))
                        \<and> fst (snd c) ! p = fst (snd st) ! p"])
  show "length (fst (snd st)) = length (fst (snd st)) \<and> fst (snd st) ! p = fst (snd st) ! p"
    by simp
  show "\<forall>t\<in>set ts. \<forall>c c'. length (fst (snd c)) = length (fst (snd st))
                          \<and> fst (snd c) ! p = fst (snd st) ! p
          \<longrightarrow> tri_force_body pd s t c = Inr c'
          \<longrightarrow> length (fst (snd c')) = length (fst (snd st))
                \<and> fst (snd c') ! p = fst (snd st) ! p"
  proof (intro ballI allI impI)
    fix t c c'
    assume t: "t \<in> set ts"
      and c: "length (fst (snd c)) = length (fst (snd st)) \<and> fst (snd c) ! p = fst (snd st) ! p"
      and step: "tri_force_body pd s t c = Inr c'"
    have p: "p < length (fst (snd c))" using c assms(2) by simp
    have "p \<notin> {h_rtag pd ! tag_a t, h_rtag pd ! tag_b t, h_rtag pd ! tag_c t}"
      using assms(3) t by blast
    from tri_force_body_untouched [OF step p this] c
    show "length (fst (snd c')) = length (fst (snd st))
            \<and> fst (snd c') ! p = fst (snd st) ! p" by simp
  qed
qed

lemma vadd_zero [simp]: "vadd (Scalar3 0 0 0) F = F"
  by (simp add: vadd_def)

lemma force3_zero4 [simp]: "force3 zero4 = Scalar3 0 0 0"
  by (simp add: force3_def zero4_def)

lemma isolated_triangle_whole:
  assumes "for_each (force_body pd mesh s) (pre @ t # post) b0 = Inr b"
    and "\<forall>u\<in>set (pre @ post).
           {h_rtag pd ! tag_a u, h_rtag pd ! tag_b u, h_rtag pd ! tag_c u} \<inter> {ia, ib, ic} = {}"
    and "lookup_indices pd t = Inr (ia, ib, ic)" and "distinct [ia, ib, ic]"
    and "ia < getN pd" and "ib < getN pd" and "ic < getN pd" and "getN pd \<le> length (fst b0)"
    and "g = force_geom pd ia ib ic"
    and "Fab = force_ab (area_prefactor s (active_type (m_ignore_type s) t)) g"
    and "Fac = force_ac (area_prefactor s (active_type (m_ignore_type s) t)) g"
  shows "force3 (fst b ! ia) = vadd (force3 (fst b0 ! ia)) (vadd Fab Fac)"
    and "force3 (fst b ! ib) = vadd (force3 (fst b0 ! ib)) (vneg Fab)"
    and "force3 (fst b ! ic) = vadd (force3 (fst b0 ! ic)) (vneg Fac)"
proof -
  from for_each_split [OF assms(1)]
  obtain b1 b2 where pre: "for_each (force_body pd mesh s) pre b0 = Inr b1"
    and step: "force_body pd mesh s t b1 = Inr b2"
    and post: "for_each (force_body pd mesh s) post b2 = Inr b"
    by blast
  have in0: "ia < length (fst b0)" "ib < length (fst b0)" "ic < length (fst b0)"
    using assms(5-8) by simp_all
  have away: "\<forall>u\<in>set pre. p \<notin> {h_rtag pd ! tag_a u, h_rtag pd ! tag_b u, h_rtag pd ! tag_c u}"
    "\<forall>u\<in>set post. p \<notin> {h_rtag pd ! tag_a u, h_rtag pd ! tag_b u, h_rtag pd ! tag_c u}"
    if "p \<in> {ia, ib, ic}" for p
    using assms(2) that by auto
  have b1: "length (fst b1) = length (fst b0)" "fst b1 ! ia = fst b0 ! ia"
    "fst b1 ! ib = fst b0 ! ib" "fst b1 ! ic = fst b0 ! ic"
    using force_loop_untouched [OF pre in0(1) away(1)]
      force_loop_untouched [OF pre in0(2) away(1)]
      force_loop_untouched [OF pre in0(3) away(1)]
    by simp_all
  have len1: "getN pd \<le> length (fst b1)" using assms(8) b1(1) by simp
  from force_body_eq [OF assms(3), of mesh s b1] step
  have b2: "b2 = apply_triangle pd (virial_pitch s) (ia, ib, ic) g Fab Fac
                   (area_energy mesh s (active_type (m_ignore_type s) t)) b1"
    by (simp add: assms(9-11))
  note v = apply_triangle_vertices(1-3) [OF assms(5-7) len1 assms(4),
      of "virial_pitch s" g Fab Fac "area_energy mesh s (active_type (m_ignore_type s) t)"]
  have in2: "ia < length (fst b2)" "ib < length (fst b2)" "ic < length (fst b2)"
    using in0 b1(1) by (simp_all add: b2)
  have b: "fst b ! ia = fst b2 ! ia" "fst b ! ib = fst b2 ! ib" "fst b ! ic = fst b2 ! ic"
    using force_loop_untouched [OF post in2(1) away(2)]
      force_loop_untouched [OF post in2(2) away(2)]
      force_loop_untouched [OF post in2(3) away(2)]
    by simp_all
  show "force3 (fst b ! ia) = vadd (force3 (fst b0 ! ia)) (vadd Fab Fac)"
    and "force3 (fst b ! ib) = vadd (force3 (fst b0 ! ib)) (vneg Fab)"
    and "force3 (fst b ! ic) = vadd (force3 (fst b0 ! ic)) (vneg Fac)"
    using v by (simp_all add: b b2 [symmetric] b1)
qed

lemma isolated_triangle_tri:
  assumes "for_each (tri_force_body pd s) (pre @ t # post) st0 = Inr st"
    and "\<forall>u\<in>set (pre @ post).
           {h_rtag pd ! tag_a u, h_rtag pd ! tag_b u, h_rtag pd ! tag_c u} \<inter> {ia, ib, ic} = {}"
    and "lookup_indices pd t = Inr (ia, ib, ic)" and "distinct [ia, ib, ic]"
    and "ia < getN pd" and "ib < getN pd" and "ic < getN pd"
    and "getN pd \<le> length (fst (snd st0))"
    and "g = force_geom pd ia ib ic"
    and "Tab = force_ab (tri_prefactor s (type_id t) g) g"
    and "Tac = force_ac (tri_prefactor s (type_id t) g) g"
  shows "force3 (fst (snd st) ! ia) = vadd (force3 (fst (snd st0) ! ia)) (vadd Tab Tac)"
    and "force3 (fst (snd st) ! ib) = vadd (force3 (fst (snd st0) ! ib)) (vneg Tab)"
    and "force3 (fst (snd st) ! ic) = vadd (force3 (fst (snd st0) ! ic)) (vneg Tac)"
proof -
  from for_each_split [OF assms(1)]
  obtain s1 s2 where pre: "for_each (tri_force_body pd s) pre st0 = Inr s1"
    and step: "tri_force_body pd s t s1 = Inr s2"
    and post: "for_each (tri_force_body pd s) post s2 = Inr st"
    by blast
  have in0: "ia < length (fst (snd st0))" "ib < length (fst (snd st0))"
    "ic < length (fst (snd st0))"
    using assms(5-8) by simp_all
  have away: "\<forall>u\<in>set pre. p \<notin> {h_rtag pd ! tag_a u, h_rtag pd ! tag_b u, h_rtag pd ! tag_c u}"
    "\<forall>u\<in>set post. p \<notin> {h_rtag pd ! tag_a u, h_rtag pd ! tag_b u, h_rtag pd ! tag_c u}"
    if "p \<in> {ia, ib, ic}" for p
    using assms(2) that by auto
  have s1: "length (fst (snd s1)) = length (fst (snd st0))"
    "fst (snd s1) ! ia = fst (snd st0) ! ia"
    "fst (snd s1) ! ib = fst (snd st0) ! ib" "fst (snd s1) ! ic = fst (snd st0) ! ic"
    using tri_force_loop_untouched [OF pre in0(1) away(1)]
      tri_force_loop_untouched [OF pre in0(2) away(1)]
      tri_force_loop_untouched [OF pre in0(3) away(1)]
    by simp_all
  have len1: "getN pd \<le> length (fst (snd s1))" using assms(8) s1(1) by simp
  from tri_force_body_eq [OF assms(3), of s "fst s1" "snd s1"] step
  have s2: "snd s2 = apply_triangle pd (virial_pitch s) (ia, ib, ic) g Tab Tac
                   (tri_energy s (type_id t) g) (snd s1)"
    by (auto simp add: assms(9-11))
  note v = apply_triangle_vertices(1-3) [OF assms(5-7) len1 assms(4),
      of "virial_pitch s" g Tab Tac "tri_energy s (type_id t) g"]
  have in2: "ia < length (fst (snd s2))" "ib < length (fst (snd s2))"
    "ic < length (fst (snd s2))"
    using in0 s1(1) by (simp_all add: s2)
  have st: "fst (snd st) ! ia = fst (snd s2) ! ia" "fst (snd st) ! ib = fst (snd s2) ! ib"
    "fst (snd st) ! ic = fst (snd s2) ! ic"
    using tri_force_loop_untouched [OF post in2(1) away(2)]
      tri_force_loop_untouched [OF post in2(2) away(2)]
      tri_force_loop_untouched [OF post in2(3) away(2)]
    by simp_all
  show "force3 (fst (snd st) ! ia) = vadd (force3 (fst (snd st0) ! ia)) (vadd Tab Tac)"
    and "force3 (fst (snd st) ! ib) = vadd (force3 (fst (snd st0) ! ib)) (vneg Tab)"
    and "force3 (fst (snd st) ! ic) = vadd (force3 (fst (snd st0) ! ic)) (vneg Tac)"
    using v by (simp_all add: st s2 [symmetric] s1)
qed

subsection \<open>The area vector across ranks\<close>

lemma local_area_partition:
  fixes ranks :: "(ParticleData \<times> MeshDefinition) list"
  assumes "\<not> getDomainDecomposition pd"
    and "local_area pd mesh ig = Inr g"
    and "list_all2 (\<lambda>r v. local_area (fst r) (snd r) ig = Inr v) ranks gs"
    and "\<forall>r\<in>set ranks. getDomainDecomposition (fst r)
           \<and> getNTypes (snd r) = getNTypes mesh
           \<and> h_triangles (snd r) = filter (keep r) (h_triangles mesh)"
    and "\<forall>r\<in>set ranks. \<forall>t\<in>set (h_triangles mesh).
           (\<not> keep r t \<longrightarrow> owned_vertices (fst r) t = 0)
           \<and> (0 < owned_vertices (fst r) t \<longrightarrow> area_of (fst r) t = area_of pd t)"
    and "\<forall>t\<in>set (h_triangles mesh). \<forall>tag\<in>set [tag_a t, tag_b t, tag_c t].
           length (filter (\<lambda>r. h_rtag (fst r) ! tag < getN (fst r)) ranks) = 1"
    and "k < getNTypes mesh"
  shows "MPI_SUM (getNTypes mesh) gs ! k = g ! k"
proof -
  let ?tris = "h_triangles mesh"
  let ?F = "\<lambda>r t. if active_type ig t = k
                   then real (owned_vertices (fst r) t) * (area_of pd t / 3) else 0"
  have whole: "area_share pd t = area_of pd t" for t
    using assms(1) by (simp add: area_share_def)
  have ref: "g ! k = (\<Sum>t\<leftarrow>?tris. if active_type ig t = k then area_of pd t else 0)"
    using local_area_nth [OF assms(2,7)] unfolding whole .
  have rank: "v ! k = (\<Sum>t\<leftarrow>?tris. ?F r t)"
    if r: "r \<in> set ranks" and v: "local_area (fst r) (snd r) ig = Inr v" for r v
  proof -
    from assms(4) r have dd: "getDomainDecomposition (fst r)"
      and n: "getNTypes (snd r) = getNTypes mesh"
      and held: "h_triangles (snd r) = filter (keep r) ?tris"
      by blast+
    from assms(5) r have other: "\<forall>t\<in>set ?tris. \<not> keep r t \<longrightarrow> owned_vertices (fst r) t = 0"
      and same: "\<forall>t\<in>set ?tris. 0 < owned_vertices (fst r) t
                   \<longrightarrow> area_of (fst r) t = area_of pd t"
      by blast+
    have share: "(if active_type ig t = k then area_share (fst r) t else 0) = ?F r t"
      if "t \<in> set ?tris" for t
      using same that dd by (cases "owned_vertices (fst r) t = 0") (auto simp add: area_share_def)
    have "v ! k = (\<Sum>t\<leftarrow>filter (keep r) ?tris.
                     if active_type ig t = k then area_share (fst r) t else 0)"
      using local_area_nth [OF v] assms(7) n held by simp
    also have "\<dots> = (\<Sum>t\<leftarrow>filter (keep r) ?tris. ?F r t)"
      by (rule arg_cong [where f = sum_list], rule map_cong) (use share in auto)
    also have "\<dots> = (\<Sum>t\<leftarrow>?tris. ?F r t)"
      by (rule sum_list_filter_zero) (use other in auto)
    finally show ?thesis .
  qed
  have "list_all2 (\<lambda>r v. v ! k = (\<Sum>t\<leftarrow>?tris. ?F r t)) ranks gs"
    by (rule list.rel_mono_strong [OF assms(3)]) (rule rank)
  then have "(\<Sum>v\<leftarrow>gs. v ! k) = (\<Sum>r\<leftarrow>ranks. \<Sum>t\<leftarrow>?tris. ?F r t)"
    by (rule sum_list_all2)
  also have "\<dots> = (\<Sum>t\<leftarrow>?tris. \<Sum>r\<leftarrow>ranks. ?F r t)"
    by (rule sum_list_swap)
  also have "\<dots> = (\<Sum>t\<leftarrow>?tris. if active_type ig t = k then area_of pd t else 0)"
  proof (rule arg_cong [where f = sum_list], rule map_cong)
    fix t assume t: "t \<in> set ?tris"
    have three: "(\<Sum>r\<leftarrow>ranks. real (owned_vertices (fst r) t)) = 3"
      using owners_total assms(6) t by blast
    show "(\<Sum>r\<leftarrow>ranks. ?F r t) = (if active_type ig t = k then area_of pd t else 0)"
    proof (cases "active_type ig t = k")
      case True
      then have "(\<Sum>r\<leftarrow>ranks. ?F r t)
          = (\<Sum>r\<leftarrow>ranks. real (owned_vertices (fst r) t) * (area_of pd t / 3))"
        by simp
      also have "\<dots> = (\<Sum>r\<leftarrow>ranks. real (owned_vertices (fst r) t)) * (area_of pd t / 3)"
        by (rule sum_list_mult_const)
      also have "\<dots> = area_of pd t" using three by simp
      finally show ?thesis using True by simp
    next
      case False
      then show ?thesis by simp
    qed
  qed simp
  finally show ?thesis
    using assms(7) by (simp add: MPI_SUM_nth ref)
qed

lemma precomputeParameter_area:
  assumes "local_area pd mesh (m_ignore_type s) = Inr v"
    and "k < getNTypes mesh" and "k < length (m_area s)"
  shows "\<exists>s1. precomputeParameter pd mesh s = Inr s1 \<and> m_area s1 ! k = reduce_area pd v ! k"
  using assms by (simp add: precomputeParameter_def store_area_nth)

subsection \<open>Further example runs\<close>

lemma six_fields [simp]:
  "getN six_particles = 6" "getNGhosts six_particles = 0"
  "\<not> pressure_tensor six_particles" "\<not> getDomainDecomposition six_particles"
  "h_triangles apart_triangles = [tri_012, tri_345]" "getNTypes apart_triangles = 1"
  "getSize apart_triangles = 2" "h_pts apart_triangles = [2]" "type_id tri_345 = 0"
  "m_K wide_compute = [10]" "m_A0 wide_compute = [2 / 5]" "m_area wide_compute = [0]"
  "\<not> m_ignore_type wide_compute" "virial_pitch wide_compute = 6"
  "m_force wide_compute = replicate 6 (Scalar4 9 9 9 9)"
  by (simp_all add: six_particles_def apart_triangles_def wide_compute_def tri_345_def)

lemma six_lookup [simp]:
  "lookup_indices six_particles tri_012 = Inr (0, Suc 0, 2)"
  "lookup_indices six_particles tri_345 = Inr (3, 4, 5)"
  by (simp_all add: lookup_indices_def six_particles_def tri_012_def tri_345_def)

lemma six_vertices [simp]:
  "vertex_indices six_particles tri_012 = (0, Suc 0, 2)"
  "vertex_indices six_particles tri_345 = (3, 4, 5)"
  by (simp_all add: vertex_indices_def six_particles_def tri_012_def tri_345_def)

lemma six_area [simp]:
  "tri_area six_particles 0 (Suc 0) 2 = 1 / 2"
  "tri_area six_particles 3 4 5 = 1 / 2"
  by (simp_all add: geom_defs six_particles_def)

lemma six_geom [simp]: "force_geom six_particles 0 (Suc 0) 2 = unit_geom"
  by (simp add: geom_defs six_particles_def unit_geom_def)

lemma six_edges:
  "area_edges_nonzero six_particles tri_012" "area_edges_nonzero six_particles tri_345"
  by (simp_all add: area_edges_nonzero_def area_geom_of_def geom_defs six_particles_def
        tri_012_def tri_345_def)

lemma apart_precompute:
  "precomputeParameter six_particles apart_triangles wide_compute
     = Inr (wide_compute\<lparr>m_area := [1]\<rparr>)"
  by (simp add: precomputeParameter_def local_area_def area_body_def active_type_def
        add_at_def reduce_area_def store_area_1)

lemma nondegenerate_unit [simp]: "nondegenerate unit_geom"
  by (simp add: nondegenerate_def unit_geom_def)

lemma owned_precompute:
  "precomputeParameter owned_particles one_triangle soft_compute
     = Inr (soft_compute\<lparr>m_area := [1 / 2]\<rparr>)"
  by (simp add: precomputeParameter_def local_area_def area_body_def active_type_def
        add_at_def reduce_area_def store_area_1)

lemma owned_body:
  "force_body owned_particles one_triangle (soft_compute\<lparr>m_area := [1 / 2]\<rparr>) tri_012 b
     = Inr (apply_triangle owned_particles 4 (0, Suc 0, 2) unit_geom
              (Scalar3 (5 / 4) 0 0) (Scalar3 0 (5 / 4) 0) (1 / 24) b)"
  by (simp add: body_defs) (simp add: unit_geom_def)

lemma owned_run:
  "computeForces owned_particles one_triangle soft_compute = Inr tri_result"
  by (simp add: computeForces_def owned_precompute owned_body zero_buffers_def
        store_buffers_def tri_result_def)
     (simp add: write_defs upt_6 unit_geom_def numeral_eq_Suc)

lemma owned_asserts [simp]: "asserts_pass owned_particles tri_012"
  by (rule lookup_asserts_pass [OF example_lookup(2)])

lemma owned_edges: "area_edges_nonzero owned_particles tri_012"
  by (simp add: area_edges_nonzero_def area_geom_of_def geom_defs owned_particles_def
        tri_012_def)

lemma owned_nondegenerate: "nondegenerate (force_geom_of owned_particles tri_012)"
  using lookup_indices_Inr [OF example_lookup(2), symmetric] by (simp add: force_geom_of_def)

lemma halves_fields [simp]:
  "getN west_rank = 2" "getDomainDecomposition west_rank"
  "MPI_Allreduce_SUM west_rank = (\<lambda>v. map2 (+) v [1 / 3])"
  "getN east_rank = 2" "getDomainDecomposition east_rank"
  "MPI_Allreduce_SUM east_rank = (\<lambda>v. map2 (+) v [2 / 3])"
  by (simp_all add: west_rank_def east_rank_def owned_particles_def)

lemma halves_lookup [simp]:
  "lookup_indices west_rank tri_012 = Inr (0, Suc 0, 2)"
  "lookup_indices west_rank tri_013 = Inr (0, Suc 0, 3)"
  "lookup_indices east_rank tri_012 = Inr (2, 3, 0)"
  "lookup_indices east_rank tri_013 = Inr (2, 3, Suc 0)"
  by (simp_all add: lookup_indices_def west_rank_def east_rank_def owned_particles_def
        tri_012_def tri_013_def)

lemma halves_area [simp]:
  "tri_area west_rank 0 (Suc 0) 2 = 1 / 2"
  "tri_area west_rank 0 (Suc 0) 3 = 1 / 2"
  "tri_area east_rank 2 3 0 = 1 / 2"
  "tri_area east_rank 2 3 (Suc 0) = 1 / 2"
  by (simp_all add: geom_defs west_rank_def east_rank_def owned_particles_def)

lemma halves_local_area:
  "local_area west_rank two_triangles False = Inr [2 / 3]"
  "local_area east_rank two_triangles False = Inr [1 / 3]"
  "local_area owned_particles two_triangles False = Inr [1]"
  by (simp_all add: local_area_def area_body_def active_type_def add_at_def add_if_def)

lemma halves_area_of [simp]:
  "area_of west_rank tri_012 = 1 / 2" "area_of west_rank tri_013 = 1 / 2"
  "area_of east_rank tri_012 = 1 / 2" "area_of east_rank tri_013 = 1 / 2"
  "area_of owned_particles tri_012 = 1 / 2" "area_of owned_particles tri_013 = 1 / 2"
  using lookup_indices_Inr [OF halves_lookup(1), symmetric]
    lookup_indices_Inr [OF halves_lookup(2), symmetric]
    lookup_indices_Inr [OF halves_lookup(3), symmetric]
    lookup_indices_Inr [OF halves_lookup(4), symmetric]
    lookup_indices_Inr [OF example_lookup(2), symmetric]
    lookup_indices_Inr [OF example_lookup(3), symmetric]
  by (simp_all add: area_of_def)

lemma halves_edges:
  "area_edges_nonzero owned_particles tri_012" "area_edges_nonzero owned_particles tri_013"
  "area_edges_nonzero west_rank tri_012" "area_edges_nonzero west_rank tri_013"
  "area_edges_nonzero east_rank tri_012" "area_edges_nonzero east_rank tri_013"
  by (simp_all add: area_edges_nonzero_def area_geom_of_def geom_defs owned_particles_def
        west_rank_def east_rank_def tri_012_def tri_013_def)

lemma halves_asserts [simp]:
  "asserts_pass west_rank tri_012" "asserts_pass west_rank tri_013"
  "asserts_pass east_rank tri_012" "asserts_pass east_rank tri_013"
  "asserts_pass owned_particles tri_013"
  by (rule lookup_asserts_pass [OF halves_lookup(1)], rule lookup_asserts_pass [OF halves_lookup(2)],
      rule lookup_asserts_pass [OF halves_lookup(3)], rule lookup_asserts_pass [OF halves_lookup(4)],
      rule lookup_asserts_pass [OF example_lookup(3)])

lemma halves_vectors [simp]:
  "rank_vector False (west_rank, two_triangles) = [2 / 3]"
  "rank_vector False (east_rank, two_triangles) = [1 / 3]"
  by (simp_all add: rank_vector_def halves_local_area)

section \<open>Whole runs: theorems\<close>

text \<open>C2. When every triangle of the mesh passes the assertions and no division of the
  source that enters an energy is by zero (edges of non-zero length, a non-zero target
  area and a non-zero triangle count for the triangle's type), \<open>computeForces\<close> returns
  in both variants, and the energy it leaves in every slot is the sum of the
  contributions of the triangles: for every owned vertex of a triangle that is the
  slot's particle, \<open>K / (6 * A0) * (A_tri - A0)\<^sup>2\<close> in the per-triangle variant (\<open>A_tri\<close> the
  area from the edge terms) and \<open>K * (area - A0)\<^sup>2 / (6 * A0 * triN)\<close> in the whole-mesh
  variant. For a triangle whose three vertices are owned, its contributions over all
  slots add up to the triangle's energy, \<open>K / (2 * A0) * (A_tri - A0)\<^sup>2\<close> and
  \<open>K * (area - A0)\<^sup>2 / (2 * A0 * triN)\<close>; when the three vertices are distinct, each of
  them receives the per-vertex energy once.\<close>

theorem triangle_energy_split:
  assumes "\<forall>u\<in>set (h_triangles mesh). asserts_pass pd u
             \<and> area_edges_nonzero pd u \<and> force_edges_nonzero pd u
             \<and> m_A0 s ! type_id u \<noteq> 0 \<and> m_A0 s ! active_type (m_ignore_type s) u \<noteq> 0
             \<and> triN mesh (m_ignore_type s) (active_type (m_ignore_type s) u) \<noteq> 0"
    and "getN pd \<le> length (m_force s)"
  shows "\<exists>sw st. computeForces pd mesh s = Inr sw \<and> tri_computeForces pd mesh s = Inr st
     \<and> m_K sw = m_K s \<and> m_A0 sw = m_A0 s \<and> m_ignore_type sw = m_ignore_type s
     \<and> (\<forall>p<length (m_force s).
            fw (m_force st ! p) = (\<Sum>u\<leftarrow>h_triangles mesh. tri_contribution pd s u p)
          \<and> fw (m_force sw ! p) = (\<Sum>u\<leftarrow>h_triangles mesh. area_contribution pd mesh sw u p))
     \<and> (\<forall>u\<in>set (h_triangles mesh). owned_vertices pd u = 3 \<longrightarrow>
            (\<Sum>p\<leftarrow>[0..<length (m_force s)]. tri_contribution pd s u p)
              = m_K s ! type_id u / (2 * m_A0 s ! type_id u)
                  * (geom_area (force_geom_of pd u) - m_A0 s ! type_id u)\<^sup>2
          \<and> (\<Sum>p\<leftarrow>[0..<length (m_force s)]. area_contribution pd mesh sw u p)
              = (let ty = active_type (m_ignore_type sw) u
                 in m_K sw ! ty * (m_area sw ! ty - m_A0 sw ! ty)\<^sup>2
                      / (2 * m_A0 sw ! ty * real (triN mesh (m_ignore_type sw) ty)))
          \<and> (distinct [h_rtag pd ! tag_a u, h_rtag pd ! tag_b u, h_rtag pd ! tag_c u] \<longrightarrow>
               (\<forall>p\<in>{h_rtag pd ! tag_a u, h_rtag pd ! tag_b u, h_rtag pd ! tag_c u}.
                   tri_contribution pd s u p
                     = m_K s ! type_id u / (6 * m_A0 s ! type_id u)
                         * (geom_area (force_geom_of pd u) - m_A0 s ! type_id u)\<^sup>2
                 \<and> area_contribution pd mesh sw u p
                     = (let ty = active_type (m_ignore_type sw) u
                        in m_K sw ! ty * (m_area sw ! ty - m_A0 sw ! ty)\<^sup>2
                             / (6 * m_A0 sw ! ty * real (triN mesh (m_ignore_type sw) ty))))))"
proof -
  have wf: "\<forall>u\<in>set (h_triangles mesh). asserts_pass pd u" using assms(1) by blast
  obtain sw where sw: "computeForces pd mesh s = Inr sw"
    using computeForces_returns [OF wf] by blast
  obtain st where st: "tri_computeForces pd mesh s = Inr st"
    using tri_computeForces_returns [OF wf] by blast
  from sw obtain s1 b where pre: "precomputeParameter pd mesh s = Inr s1"
    and sw': "sw = store_buffers s1 b"
    using computeForces_Inr by blast
  have params: "m_K sw = m_K s" "m_A0 sw = m_A0 s" "m_ignore_type sw = m_ignore_type s"
    by (simp_all add: sw' precomputeParameter_fields [OF pre])
  have slots: "\<forall>p<length (m_force s).
            fw (m_force st ! p) = (\<Sum>u\<leftarrow>h_triangles mesh. tri_contribution pd s u p)
          \<and> fw (m_force sw ! p) = (\<Sum>u\<leftarrow>h_triangles mesh. area_contribution pd mesh sw u p)"
    using computeForces_slot_energy [OF sw] tri_computeForces_slot_energy [OF st] by blast
  have each: "tri_contribution pd s u p
                     = m_K s ! type_id u / (6 * m_A0 s ! type_id u)
                         * (geom_area (force_geom_of pd u) - m_A0 s ! type_id u)\<^sup>2
            \<and> area_contribution pd mesh sw u p
                     = (let ty = active_type (m_ignore_type sw) u
                        in m_K sw ! ty * (m_area sw ! ty - m_A0 sw ! ty)\<^sup>2
                             / (6 * m_A0 sw ! ty * real (triN mesh (m_ignore_type sw) ty)))"
    if "owned_hits pd u p = 1" for u p
    using that by (simp add: tri_contribution_def area_contribution_def Let_def)
  have triangles: "\<forall>u\<in>set (h_triangles mesh). owned_vertices pd u = 3 \<longrightarrow>
            (\<Sum>p\<leftarrow>[0..<length (m_force s)]. tri_contribution pd s u p)
              = m_K s ! type_id u / (2 * m_A0 s ! type_id u)
                  * (geom_area (force_geom_of pd u) - m_A0 s ! type_id u)\<^sup>2
          \<and> (\<Sum>p\<leftarrow>[0..<length (m_force s)]. area_contribution pd mesh sw u p)
              = (let ty = active_type (m_ignore_type sw) u
                 in m_K sw ! ty * (m_area sw ! ty - m_A0 sw ! ty)\<^sup>2
                      / (2 * m_A0 sw ! ty * real (triN mesh (m_ignore_type sw) ty)))
          \<and> (distinct [h_rtag pd ! tag_a u, h_rtag pd ! tag_b u, h_rtag pd ! tag_c u] \<longrightarrow>
               (\<forall>p\<in>{h_rtag pd ! tag_a u, h_rtag pd ! tag_b u, h_rtag pd ! tag_c u}.
                   tri_contribution pd s u p
                     = m_K s ! type_id u / (6 * m_A0 s ! type_id u)
                         * (geom_area (force_geom_of pd u) - m_A0 s ! type_id u)\<^sup>2
                 \<and> area_contribution pd mesh sw u p
                     = (let ty = active_type (m_ignore_type sw) u
                        in m_K sw ! ty * (m_area sw ! ty - m_A0 sw ! ty)\<^sup>2
                             / (6 * m_A0 sw ! ty * real (triN mesh (m_ignore_type sw) ty)))))"
    using three_vertices_tri [OF assms(2)] three_vertices_area [OF assms(2)]
      each [OF owned_hits_vertex]
    by blast
  from sw st params slots triangles show ?thesis by blast
qed

theorem triangle_energy_split_witness:
  "computeForces owned_particles one_triangle soft_compute = Inr tri_result
   \<and> tri_computeForces owned_particles one_triangle soft_compute = Inr tri_result
   \<and> owned_vertices owned_particles tri_012 = 3
   \<and> fw (m_force tri_result ! 0) = 1 / 24
   \<and> fw (m_force tri_result ! 1) = 1 / 24
   \<and> fw (m_force tri_result ! 2) = 1 / 24
   \<and> fw (m_force tri_result ! 3) = 0
   \<and> tri_contribution owned_particles soft_compute tri_012 0 = 1 / 24
   \<and> area_contribution owned_particles one_triangle tri_result tri_012 0 = 1 / 24
   \<and> (\<Sum>p\<leftarrow>[0..<4]. tri_contribution owned_particles soft_compute tri_012 p) = 1 / 8
   \<and> (\<Sum>p\<leftarrow>[0..<4]. area_contribution owned_particles one_triangle tri_result tri_012 p)
        = 1 / 8"
proof -
  have ty: "active_type False tri_012 = 0" by (simp add: active_type_def)
  have wf: "\<forall>u\<in>set (h_triangles one_triangle). asserts_pass owned_particles u
             \<and> area_edges_nonzero owned_particles u \<and> force_edges_nonzero owned_particles u
             \<and> m_A0 soft_compute ! type_id u \<noteq> 0
             \<and> m_A0 soft_compute ! active_type (m_ignore_type soft_compute) u \<noteq> 0
             \<and> triN one_triangle (m_ignore_type soft_compute)
                   (active_type (m_ignore_type soft_compute) u) \<noteq> 0"
    using owned_edges owned_nondegenerate
    by (simp add: force_edges_nonzero_def nondegenerate_def ty triN_def)
  have len: "getN owned_particles \<le> length (m_force soft_compute)" by simp
  have own: "owned_vertices owned_particles tri_012 = 3"
    by (simp add: owned_vertices_def owned_particles_def tri_012_def)
  have dist: "distinct [h_rtag owned_particles ! tag_a tri_012,
                        h_rtag owned_particles ! tag_b tri_012,
                        h_rtag owned_particles ! tag_c tri_012]"
    by (simp add: owned_particles_def tri_012_def)
  have a: "h_rtag owned_particles ! tag_a tri_012 = 0"
    by (simp add: owned_particles_def tri_012_def)
  have geom: "geom_area (force_geom_of owned_particles tri_012) = 1 / 2"
    using lookup_indices_Inr [OF example_lookup(2), symmetric] by (simp add: force_geom_of_def)
  from triangle_energy_split [OF wf len]
  obtain sw st where sw: "computeForces owned_particles one_triangle soft_compute = Inr sw"
    and st: "tri_computeForces owned_particles one_triangle soft_compute = Inr st"
    and slots: "\<forall>p<length (m_force soft_compute).
            fw (m_force st ! p)
              = (\<Sum>u\<leftarrow>h_triangles one_triangle. tri_contribution owned_particles soft_compute u p)
          \<and> fw (m_force sw ! p)
              = (\<Sum>u\<leftarrow>h_triangles one_triangle.
                   area_contribution owned_particles one_triangle sw u p)"
    and tris: "\<forall>u\<in>set (h_triangles one_triangle). owned_vertices owned_particles u = 3 \<longrightarrow>
            (\<Sum>p\<leftarrow>[0..<length (m_force soft_compute)].
                tri_contribution owned_particles soft_compute u p)
              = m_K soft_compute ! type_id u / (2 * m_A0 soft_compute ! type_id u)
                  * (geom_area (force_geom_of owned_particles u)
                       - m_A0 soft_compute ! type_id u)\<^sup>2
          \<and> (\<Sum>p\<leftarrow>[0..<length (m_force soft_compute)].
                area_contribution owned_particles one_triangle sw u p)
              = (let ty = active_type (m_ignore_type sw) u
                 in m_K sw ! ty * (m_area sw ! ty - m_A0 sw ! ty)\<^sup>2
                      / (2 * m_A0 sw ! ty * real (triN one_triangle (m_ignore_type sw) ty)))
          \<and> (distinct [h_rtag owned_particles ! tag_a u, h_rtag owned_particles ! tag_b u,
                        h_rtag owned_particles ! tag_c u] \<longrightarrow>
               (\<forall>p\<in>{h_rtag owned_particles ! tag_a u, h_rtag owned_particles ! tag_b u,
                     h_rtag owned_particles ! tag_c u}.
                   tri_contribution owned_particles soft_compute u p
                     = m_K soft_compute ! type_id u / (6 * m_A0 soft_compute ! type_id u)
                         * (geom_area (force_geom_of owned_particles u)
                              - m_A0 soft_compute ! type_id u)\<^sup>2
                 \<and> area_contribution owned_particles one_triangle sw u p
                     = (let ty = active_type (m_ignore_type sw) u
                        in m_K sw ! ty * (m_area sw ! ty - m_A0 sw ! ty)\<^sup>2
                             / (6 * m_A0 sw ! ty
                                  * real (triN one_triangle (m_ignore_type sw) ty)))))"
    by blast
  have sw': "sw = tri_result" using sw owned_run by simp
  have st': "st = tri_result" using st tri_run by simp
  have res: "m_K tri_result = [10]" "m_A0 tri_result = [2 / 5]" "m_area tri_result = [1 / 2]"
    "\<not> m_ignore_type tri_result"
    by (simp_all add: tri_result_def)
  have t: "tri_012 \<in> set (h_triangles one_triangle)" by simp
  note facts = bspec [OF tris t, rule_format, OF own, unfolded sw']
  have totals: "(\<Sum>p\<leftarrow>[0..<4]. tri_contribution owned_particles soft_compute tri_012 p) = 1 / 8"
    "(\<Sum>p\<leftarrow>[0..<4]. area_contribution owned_particles one_triangle tri_result tri_012 p)
        = 1 / 8"
    using facts
    by (simp_all add: geom res active_type_def triN_def Let_def power2_eq_square
          del: distinct.simps)
  have each: "tri_contribution owned_particles soft_compute tri_012 0 = 1 / 24"
    "area_contribution owned_particles one_triangle tri_result tri_012 0 = 1 / 24"
    using facts [THEN conjunct2, THEN conjunct2, rule_format, OF dist, of 0] a
    by (simp_all add: geom res active_type_def triN_def Let_def power2_eq_square)
  have slots': "fw (m_force tri_result ! 0) = 1 / 24" "fw (m_force tri_result ! 1) = 1 / 24"
    "fw (m_force tri_result ! 2) = 1 / 24" "fw (m_force tri_result ! 3) = 0"
    by (simp_all add: tri_result_def zero4_def)
  show ?thesis
    using owned_run tri_run own slots' each totals by simp
qed

text \<open>C3. Take a mesh in which every triangle passes the assertions and has edges of
  non-zero length, and in it a well-formed triangle: three distinct owned vertices that
  no other triangle of the mesh uses, edge terms with non-zero lengths and non-zero
  sine, and a non-zero target area, so that no division of the source is by zero. Then
  \<open>computeForces\<close> returns, in both variants, with \<open>Fab + Fac\<close> in the slot of vertex a,
  \<open>- Fab\<close> in that of vertex b and \<open>- Fac\<close> in that of vertex c, and the three forces add up
  to the zero vector.\<close>

theorem triangle_forces_cancel:
  assumes "\<forall>u\<in>set (h_triangles mesh). asserts_pass pd u \<and> area_edges_nonzero pd u"
    and "h_triangles mesh = pre @ t # post"
    and "\<forall>u\<in>set (pre @ post).
           {h_rtag pd ! tag_a u, h_rtag pd ! tag_b u, h_rtag pd ! tag_c u} \<inter> {ia, ib, ic} = {}"
    and "vertex_indices pd t = (ia, ib, ic)" and "distinct [ia, ib, ic]"
    and "ia < getN pd" and "ib < getN pd" and "ic < getN pd"
    and "getN pd \<le> length (m_force s)"
    and "g = force_geom pd ia ib ic" and "nondegenerate g"
    and "m_A0 s ! active_type (m_ignore_type s) t \<noteq> 0" and "m_A0 s ! type_id t \<noteq> 0"
  shows "\<exists>sw st Fab Fac Tab Tac.
       computeForces pd mesh s = Inr sw \<and> tri_computeForces pd mesh s = Inr st
     \<and> Fab = force_ab (area_prefactor sw (active_type (m_ignore_type s) t)) g
     \<and> Fac = force_ac (area_prefactor sw (active_type (m_ignore_type s) t)) g
     \<and> force3 (m_force sw ! ia) = vadd Fab Fac
     \<and> force3 (m_force sw ! ib) = vneg Fab
     \<and> force3 (m_force sw ! ic) = vneg Fac
     \<and> vadd (vadd (force3 (m_force sw ! ia)) (force3 (m_force sw ! ib)))
             (force3 (m_force sw ! ic)) = zero3
     \<and> Tab = force_ab (tri_prefactor s (type_id t) g) g
     \<and> Tac = force_ac (tri_prefactor s (type_id t) g) g
     \<and> force3 (m_force st ! ia) = vadd Tab Tac
     \<and> force3 (m_force st ! ib) = vneg Tab
     \<and> force3 (m_force st ! ic) = vneg Tac
     \<and> vadd (vadd (force3 (m_force st ! ia)) (force3 (m_force st ! ib)))
             (force3 (m_force st ! ic)) = zero3"
proof -
  have wf: "\<forall>u\<in>set (h_triangles mesh). asserts_pass pd u" using assms(1) by blast
  have "t \<in> set (h_triangles mesh)" by (simp add: assms(2))
  with wf have "asserts_pass pd t" by blast
  then have look: "lookup_indices pd t = Inr (ia, ib, ic)"
    using assms(4) by (simp add: asserts_pass_def)
  obtain sw where sw: "computeForces pd mesh s = Inr sw"
    using computeForces_returns [OF wf] by blast
  obtain st where st: "tri_computeForces pd mesh s = Inr st"
    using tri_computeForces_returns [OF wf] by blast
  from sw obtain s1 b where pre: "precomputeParameter pd mesh s = Inr s1"
    and run: "for_each (force_body pd mesh s1) (pre @ t # post) (zero_buffers s1) = Inr b"
    and sw': "sw = store_buffers s1 b"
    using computeForces_Inr assms(2) by metis
  note fields = precomputeParameter_fields [OF pre]
  have len1: "getN pd \<le> length (fst (zero_buffers s1))"
    using assms(9) by (simp add: zero_buffers_def fields)
  define Fab where "Fab = force_ab (area_prefactor s1 (active_type (m_ignore_type s1) t)) g"
  define Fac where "Fac = force_ac (area_prefactor s1 (active_type (m_ignore_type s1) t)) g"
  note w = isolated_triangle_whole [OF run assms(3) look assms(5-8) len1 assms(10)
      Fab_def Fac_def]
  have zero: "fst (zero_buffers s1) ! ia = zero4" "fst (zero_buffers s1) ! ib = zero4"
    "fst (zero_buffers s1) ! ic = zero4"
    using assms(6-9) by (simp_all add: zero_buffers_def fields)
  have pw: "area_prefactor sw ty = area_prefactor s1 ty" for ty
    by (simp add: sw' area_prefactor_def)
  have whole: "force3 (m_force sw ! ia) = vadd Fab Fac" "force3 (m_force sw ! ib) = vneg Fab"
    "force3 (m_force sw ! ic) = vneg Fac"
    using w by (simp_all add: sw' zero)
  have Fsw: "Fab = force_ab (area_prefactor sw (active_type (m_ignore_type s) t)) g"
    "Fac = force_ac (area_prefactor sw (active_type (m_ignore_type s) t)) g"
    by (simp_all add: Fab_def Fac_def pw fields)
  from st obtain ga c where
    trun: "for_each (tri_force_body pd s) (pre @ t # post)
            (replicate (getNTypes mesh) 0, zero_buffers s) = Inr (ga, c)"
    and st': "st = (store_buffers s c)
                 \<lparr>m_area := store_area (getNTypes mesh) (reduce_area pd ga) (m_area s)\<rparr>"
    using tri_computeForces_Inr assms(2) by metis
  have len2: "getN pd \<le> length (fst (snd (replicate (getNTypes mesh) (0::real), zero_buffers s)))"
    using assms(9) by (simp add: zero_buffers_def)
  define Tab where "Tab = force_ab (tri_prefactor s (type_id t) g) g"
  define Tac where "Tac = force_ac (tri_prefactor s (type_id t) g) g"
  note v = isolated_triangle_tri [OF trun assms(3) look assms(5-8) len2 assms(10)
      Tab_def Tac_def]
  have zero': "fst (zero_buffers s) ! ia = zero4" "fst (zero_buffers s) ! ib = zero4"
    "fst (zero_buffers s) ! ic = zero4"
    using assms(6-9) by (simp_all add: zero_buffers_def)
  have tri: "force3 (m_force st ! ia) = vadd Tab Tac" "force3 (m_force st ! ib) = vneg Tab"
    "force3 (m_force st ! ic) = vneg Tac"
    using v by (simp_all add: st' zero')
  have sums: "vadd (vadd (force3 (m_force sw ! ia)) (force3 (m_force sw ! ib)))
             (force3 (m_force sw ! ic)) = zero3"
    "vadd (vadd (force3 (m_force st ! ia)) (force3 (m_force st ! ib)))
             (force3 (m_force st ! ic)) = zero3"
    unfolding whole tri by (rule forces_cancel)+
  from sw st Fsw whole sums(1) Tab_def Tac_def tri sums(2) show ?thesis by blast
qed

theorem triangle_forces_cancel_witness:
  "\<exists>sw st. computeForces six_particles apart_triangles wide_compute = Inr sw
     \<and> tri_computeForces six_particles apart_triangles wide_compute = Inr st
     \<and> force3 (m_force sw ! 0) = Scalar3 (15 / 2) (15 / 2) 0
     \<and> force3 (m_force sw ! 1) = Scalar3 (- 15 / 2) 0 0
     \<and> force3 (m_force sw ! 2) = Scalar3 0 (- 15 / 2) 0
     \<and> vadd (vadd (force3 (m_force sw ! 0)) (force3 (m_force sw ! 1)))
             (force3 (m_force sw ! 2)) = zero3
     \<and> force3 (m_force st ! 0) = Scalar3 (5 / 4) (5 / 4) 0
     \<and> force3 (m_force st ! 1) = Scalar3 (- 5 / 4) 0 0
     \<and> force3 (m_force st ! 2) = Scalar3 0 (- 5 / 4) 0
     \<and> vadd (vadd (force3 (m_force st ! 0)) (force3 (m_force st ! 1)))
             (force3 (m_force st ! 2)) = zero3"
proof -
  have wf: "\<forall>u\<in>set (h_triangles apart_triangles).
              asserts_pass six_particles u \<and> area_edges_nonzero six_particles u"
    by (simp add: asserts_pass_def six_edges)
  have split: "h_triangles apart_triangles = [] @ tri_012 # [tri_345]" by simp
  have iso: "\<forall>u\<in>set ([] @ [tri_345]).
           {h_rtag six_particles ! tag_a u, h_rtag six_particles ! tag_b u,
            h_rtag six_particles ! tag_c u} \<inter> {0, 1, 2} = {}"
    by (simp add: six_particles_def tri_345_def)
  have idx: "vertex_indices six_particles tri_012 = (0, 1, 2)" by simp
  have dist: "distinct [0, 1, 2 :: nat]" by simp
  have own: "0 < getN six_particles" "1 < getN six_particles" "2 < getN six_particles"
    by simp_all
  have len: "getN six_particles \<le> length (m_force wide_compute)" by simp
  have g: "unit_geom = force_geom six_particles 0 1 2" by simp
  have A0: "m_A0 wide_compute ! active_type (m_ignore_type wide_compute) tri_012 \<noteq> 0"
    "m_A0 wide_compute ! type_id tri_012 \<noteq> 0"
    by (simp_all add: active_type_def)
  from triangle_forces_cancel [OF wf split iso idx dist own len g nondegenerate_unit A0]
  obtain sw st Fab Fac Tab Tac where
    sw: "computeForces six_particles apart_triangles wide_compute = Inr sw"
    and st: "tri_computeForces six_particles apart_triangles wide_compute = Inr st"
    and F: "Fab = force_ab (area_prefactor sw (active_type (m_ignore_type wide_compute) tri_012))
                    unit_geom"
      "Fac = force_ac (area_prefactor sw (active_type (m_ignore_type wide_compute) tri_012))
                    unit_geom"
    and w: "force3 (m_force sw ! 0) = vadd Fab Fac" "force3 (m_force sw ! 1) = vneg Fab"
      "force3 (m_force sw ! 2) = vneg Fac"
      "vadd (vadd (force3 (m_force sw ! 0)) (force3 (m_force sw ! 1)))
             (force3 (m_force sw ! 2)) = zero3"
    and T: "Tab = force_ab (tri_prefactor wide_compute (type_id tri_012) unit_geom) unit_geom"
      "Tac = force_ac (tri_prefactor wide_compute (type_id tri_012) unit_geom) unit_geom"
    and v: "force3 (m_force st ! 0) = vadd Tab Tac" "force3 (m_force st ! 1) = vneg Tab"
      "force3 (m_force st ! 2) = vneg Tac"
      "vadd (vadd (force3 (m_force st ! 0)) (force3 (m_force st ! 1)))
             (force3 (m_force st ! 2)) = zero3"
    by blast
  from sw obtain b where "sw = store_buffers (wide_compute\<lparr>m_area := [1]\<rparr>) b"
    using computeForces_Inr apart_precompute by (metis sum.inject(2))
  then have pre: "area_prefactor sw 0 = 15 / 2"
    by (simp add: area_prefactor_def)
  have Fv: "Fab = Scalar3 (15 / 2) 0 0" "Fac = Scalar3 0 (15 / 2) 0"
    by (simp_all add: F active_type_def pre force_ab_def force_ac_def unit_geom_def
          smul_def vadd_def vneg_def)
  have Tv: "Tab = Scalar3 (5 / 4) 0 0" "Tac = Scalar3 0 (5 / 4) 0"
    by (simp_all add: T tri_prefactor_def tri_Ut_def force_ab_def force_ac_def unit_geom_def
          smul_def vadd_def vneg_def)
  show ?thesis
    using sw st w v by (simp add: Fv Tv vadd_def vneg_def)
qed

text \<open>C8. For a mesh of a single triangle that is not degenerate and has a non-zero
  target area, so that no division of the source is by zero: when the aggregate area
  that this call computes equals the target area of the triangle's type,
  \<open>computeForces\<close> of the whole-mesh variant leaves zero force and zero energy in every
  slot of the force buffer, in particular in those of the three vertices.\<close>

theorem single_triangle_at_target:
  assumes "h_triangles mesh = [t]"
    and "computeForces pd mesh s = Inr s'"
    and "ty = active_type (m_ignore_type s) t"
    and "m_area s' ! ty = m_A0 s ! ty"
    and "m_A0 s ! ty \<noteq> 0"
    and "triN mesh (m_ignore_type s) ty \<noteq> 0"
    and "area_edges_nonzero pd t"
    and "nondegenerate (force_geom_of pd t)"
    and "p < length (m_force s')"
  shows "m_force s' ! p = zero4"
proof -
  from assms(2) obtain s1 b where pre: "precomputeParameter pd mesh s = Inr s1"
    and run: "for_each (force_body pd mesh s1) (h_triangles mesh) (zero_buffers s1) = Inr b"
    and s': "s' = store_buffers s1 b"
    using computeForces_Inr by blast
  note fields = precomputeParameter_fields [OF pre]
  have body: "force_body pd mesh s1 t (zero_buffers s1) = Inr b"
    using run by (simp add: assms(1) split: sum.splits)
  have target: "m_area s1 ! active_type (m_ignore_type s1) t
                  = m_A0 s1 ! active_type (m_ignore_type s1) t"
    using assms(3,4) by (simp add: s' fields)
  have len: "length (fst b) = length (m_force s1)"
    using ghosts_kept_zero(1) [OF force_loop_frame [OF run]] .
  have p: "p < length (fst (zero_buffers s1))"
    using assms(9) len by (simp add: s' zero_buffers_def)
  show ?thesis
  proof (cases "lookup_indices pd t")
    case (Inl e)
    with body show ?thesis by (simp add: force_body_def)
  next
    case (Inr idx)
    obtain ia ib ic where "idx = (ia, ib, ic)" by (cases idx) auto
    with Inr have look: "lookup_indices pd t = Inr (ia, ib, ic)" by simp
    from force_body_eq [OF look, of mesh s1 "zero_buffers s1"] body
    have "b = apply_triangle pd (virial_pitch s1) (ia, ib, ic) (force_geom pd ia ib ic)
               (Scalar3 0 0 0) (Scalar3 0 0 0) 0 (zero_buffers s1)"
      by (simp add: area_at_target [OF target])
    then have "fst b ! p = fst (zero_buffers s1) ! p"
      using apply_triangle_nothing [OF p] by simp
    then show ?thesis
      using p by (simp add: s' zero_buffers_def)
  qed
qed

theorem single_triangle_at_target_witness:
  "h_triangles one_triangle = [tri_012]
   \<and> computeForces owned_particles one_triangle target_compute = Inr target_result
   \<and> m_area target_result ! 0 = m_A0 target_compute ! 0
   \<and> m_A0 target_compute ! 0 = 1 / 2
   \<and> triN one_triangle (m_ignore_type target_compute) 0 = 1
   \<and> area_edges_nonzero owned_particles tri_012
   \<and> nondegenerate (force_geom_of owned_particles tri_012)
   \<and> lookup_indices owned_particles tri_012 = Inr (0, 1, 2)
   \<and> m_force target_result ! 0 = zero4
   \<and> m_force target_result ! 1 = zero4
   \<and> m_force target_result ! 2 = zero4"
proof -
  have tris: "h_triangles one_triangle = [tri_012]" by simp
  have ty: "0 = active_type (m_ignore_type target_compute) tri_012"
    by (simp add: active_type_def)
  have target: "m_area target_result ! 0 = m_A0 target_compute ! 0"
    by (simp add: target_result_def)
  have A0: "m_A0 target_compute ! 0 \<noteq> 0" by simp
  have n: "triN one_triangle (m_ignore_type target_compute) 0 \<noteq> 0"
    by (simp add: triN_def)
  note at = single_triangle_at_target [OF tris target_run ty target A0 n owned_edges
      owned_nondegenerate]
  have "m_force target_result ! 0 = zero4" by (rule at) (simp add: target_result_def)
  moreover have "m_force target_result ! 1 = zero4" by (rule at) (simp add: target_result_def)
  moreover have "m_force target_result ! 2 = zero4" by (rule at) (simp add: target_result_def)
  ultimately show ?thesis
    using tris target target_run owned_edges owned_nondegenerate by (simp add: triN_def)
qed

text \<open>C4. The aggregate area does not depend on the partition. Take a mesh on a single
  rank without domain decomposition, and the same mesh on any number of ranks with
  domain decomposition, where every rank holds a sublist of the triangles that contains
  each triangle with a vertex it owns and computes for it the same area as the single
  rank, from edges of non-zero length, every vertex of every triangle is owned by exactly one rank, and
  the collective gives every rank the component-wise sum of the vectors of all ranks.
  Then \<open>precomputeParameter\<close> returns on the single rank and on every rank, and the area
  it stores for a type is the same on every rank as on the single rank.\<close>

theorem area_partition_invariant:
  fixes ranks :: "(ParticleData \<times> MeshDefinition) list"
  assumes "\<not> getDomainDecomposition pd"
    and "\<forall>u\<in>set (h_triangles mesh). asserts_pass pd u \<and> area_edges_nonzero pd u"
    and "\<forall>r\<in>set ranks. getDomainDecomposition (fst r)
           \<and> getNTypes (snd r) = getNTypes mesh
           \<and> h_triangles (snd r) = filter (keep r) (h_triangles mesh)
           \<and> MPI_Allreduce_SUM (fst r) (rank_vector (m_ignore_type s) r)
               = MPI_SUM (getNTypes mesh) (map (rank_vector (m_ignore_type s)) ranks)"
    and "\<forall>r\<in>set ranks. \<forall>t\<in>set (h_triangles mesh).
           (keep r t \<longrightarrow> asserts_pass (fst r) t)
           \<and> (\<not> keep r t \<longrightarrow> owned_vertices (fst r) t = 0)
           \<and> (0 < owned_vertices (fst r) t \<longrightarrow>
                 area_edges_nonzero (fst r) t \<and> area_of (fst r) t = area_of pd t)"
    and "\<forall>t\<in>set (h_triangles mesh). \<forall>tag\<in>set [tag_a t, tag_b t, tag_c t].
           length (filter (\<lambda>r. h_rtag (fst r) ! tag < getN (fst r)) ranks) = 1"
    and "k < getNTypes mesh" and "k < length (m_area s)"
  shows "\<exists>s0. precomputeParameter pd mesh s = Inr s0
           \<and> (\<forall>r\<in>set ranks. \<exists>sr. precomputeParameter (fst r) (snd r) s = Inr sr
                                  \<and> m_area sr ! k = m_area s0 ! k)"
proof -
  let ?ig = "m_ignore_type s"
  have wf: "\<forall>u\<in>set (h_triangles mesh). asserts_pass pd u" using assms(2) by blast
  obtain g where g: "local_area pd mesh ?ig = Inr g"
    using local_area_returns [OF wf] by blast
  from precomputeParameter_area [OF g assms(6,7)]
  obtain s0 where s0: "precomputeParameter pd mesh s = Inr s0" and a0: "m_area s0 ! k = g ! k"
    using assms(1) by (auto simp add: reduce_area_def)
  have ret: "local_area (fst r) (snd r) ?ig = Inr (rank_vector ?ig r)" if r: "r \<in> set ranks" for r
  proof -
    have "\<forall>u\<in>set (h_triangles (snd r)). asserts_pass (fst r) u"
      using assms(3,4) r by auto
    from local_area_returns [OF this, of ?ig]
    obtain v where "local_area (fst r) (snd r) ?ig = Inr v" by blast
    then show ?thesis by (simp add: rank_vector_def)
  qed
  have all2: "list_all2 (\<lambda>r v. local_area (fst r) (snd r) ?ig = Inr v) ranks
                (map (rank_vector ?ig) ranks)"
    using ret by (simp add: list_all2_map2 list_all2_same)
  have rk: "\<forall>r\<in>set ranks. getDomainDecomposition (fst r)
           \<and> getNTypes (snd r) = getNTypes mesh
           \<and> h_triangles (snd r) = filter (keep r) (h_triangles mesh)"
    using assms(3) by blast
  have same: "\<forall>r\<in>set ranks. \<forall>t\<in>set (h_triangles mesh).
           (\<not> keep r t \<longrightarrow> owned_vertices (fst r) t = 0)
           \<and> (0 < owned_vertices (fst r) t \<longrightarrow> area_of (fst r) t = area_of pd t)"
    using assms(4) by blast
  note total = local_area_partition [OF assms(1) g all2 rk same assms(5,6)]
  have "\<exists>sr. precomputeParameter (fst r) (snd r) s = Inr sr \<and> m_area sr ! k = m_area s0 ! k"
    if r: "r \<in> set ranks" for r
  proof -
    from assms(3) r have dd: "getDomainDecomposition (fst r)"
      and n: "getNTypes (snd r) = getNTypes mesh"
      and coll: "MPI_Allreduce_SUM (fst r) (rank_vector ?ig r)
               = MPI_SUM (getNTypes mesh) (map (rank_vector ?ig) ranks)"
      by blast+
    have k: "k < getNTypes (snd r)" using assms(6) n by simp
    from precomputeParameter_area [OF ret [OF r] k assms(7)]
    obtain sr where sr: "precomputeParameter (fst r) (snd r) s = Inr sr"
      and ar: "m_area sr ! k = reduce_area (fst r) (rank_vector ?ig r) ! k"
      by blast
    have "m_area sr ! k = g ! k"
      using ar dd coll total by (simp add: reduce_area_def)
    with sr a0 show ?thesis by simp
  qed
  with s0 show ?thesis by blast
qed

theorem area_partition_invariant_witness:
  "\<exists>s0 sw se.
       precomputeParameter owned_particles two_triangles soft_compute = Inr s0
     \<and> precomputeParameter west_rank two_triangles soft_compute = Inr sw
     \<and> precomputeParameter east_rank two_triangles soft_compute = Inr se
     \<and> local_area west_rank two_triangles False = Inr [2 / 3]
     \<and> local_area east_rank two_triangles False = Inr [1 / 3]
     \<and> m_area s0 ! 0 = 1 \<and> m_area sw ! 0 = m_area s0 ! 0 \<and> m_area se ! 0 = m_area s0 ! 0"
proof -
  let ?ranks = "[(west_rank, two_triangles), (east_rank, two_triangles)]"
  have dd: "\<not> getDomainDecomposition owned_particles" by simp
  have wf: "\<forall>u\<in>set (h_triangles two_triangles).
              asserts_pass owned_particles u \<and> area_edges_nonzero owned_particles u"
    by (simp add: halves_edges)
  have rk: "\<forall>r\<in>set ?ranks. getDomainDecomposition (fst r)
           \<and> getNTypes (snd r) = getNTypes two_triangles
           \<and> h_triangles (snd r) = filter ((\<lambda>r t. True) r) (h_triangles two_triangles)
           \<and> MPI_Allreduce_SUM (fst r) (rank_vector (m_ignore_type soft_compute) r)
               = MPI_SUM (getNTypes two_triangles)
                   (map (rank_vector (m_ignore_type soft_compute)) ?ranks)"
    by (simp add: MPI_SUM_def)
  have same: "\<forall>r\<in>set ?ranks. \<forall>t\<in>set (h_triangles two_triangles).
           ((\<lambda>r t. True) r t \<longrightarrow> asserts_pass (fst r) t)
           \<and> (\<not> (\<lambda>r t. True) r t \<longrightarrow> owned_vertices (fst r) t = 0)
           \<and> (0 < owned_vertices (fst r) t \<longrightarrow>
                 area_edges_nonzero (fst r) t \<and> area_of (fst r) t = area_of owned_particles t)"
    by (simp add: halves_edges)
  have owner: "\<forall>t\<in>set (h_triangles two_triangles). \<forall>tag\<in>set [tag_a t, tag_b t, tag_c t].
           length (filter (\<lambda>r. h_rtag (fst r) ! tag < getN (fst r)) ?ranks) = 1"
    by (simp add: west_rank_def east_rank_def owned_particles_def tri_012_def tri_013_def)
  have k: "0 < getNTypes two_triangles" "0 < length (m_area soft_compute)" by simp_all
  from area_partition_invariant [OF dd wf rk same owner k]
  obtain s0 where s0: "precomputeParameter owned_particles two_triangles soft_compute = Inr s0"
    and all: "\<forall>r\<in>set ?ranks. \<exists>sr. precomputeParameter (fst r) (snd r) soft_compute = Inr sr
                                  \<and> m_area sr ! 0 = m_area s0 ! 0"
    by blast
  from all obtain sw se where
    sw: "precomputeParameter west_rank two_triangles soft_compute = Inr sw"
      "m_area sw ! 0 = m_area s0 ! 0"
    and se: "precomputeParameter east_rank two_triangles soft_compute = Inr se"
      "m_area se ! 0 = m_area s0 ! 0"
    by auto
  have "m_area s0 ! 0 = 1"
    using s0 by (auto simp add: precomputeParameter_def halves_local_area reduce_area_def
        store_area_1)
  with s0 sw se show ?thesis by (auto simp add: halves_local_area)
qed

end
